theory Spec2Isabelle
  imports Complex_Main "HOL-Library.Multiset" "HOL-Library.Product_Lexorder"
    "HOL-Library.List_Lexorder" "HOL-Library.Char_ord"
begin

section \<open>Python strings\<close>

text \<open>
  Catalog names are ASCII, so a Python \<open>str\<close> is modelled as a \<open>string\<close> (a list of
  one-byte characters) and the case conversions act on the 26 ASCII letters only.
\<close>

definition ascii_lowercase :: string where
  "ascii_lowercase = ''abcdefghijklmnopqrstuvwxyz''"

definition ascii_uppercase :: string where
  "ascii_uppercase = ''ABCDEFGHIJKLMNOPQRSTUVWXYZ''"

definition islower :: "char \<Rightarrow> bool" where
  "islower c = (c \<in> set ascii_lowercase)"

definition isupper :: "char \<Rightarrow> bool" where
  "isupper c = (c \<in> set ascii_uppercase)"

definition upper_char :: "char \<Rightarrow> char" where
  "upper_char c = (case map_of (zip ascii_lowercase ascii_uppercase) c of Some u \<Rightarrow> u | None \<Rightarrow> c)"

definition lower_char :: "char \<Rightarrow> char" where
  "lower_char c = (case map_of (zip ascii_uppercase ascii_lowercase) c of Some l \<Rightarrow> l | None \<Rightarrow> c)"

text \<open>\<open>s.lower()\<close> and \<open>s.upper()\<close>.\<close>

definition str_lower :: "string \<Rightarrow> string" where
  "str_lower s = map lower_char s"

definition str_upper :: "string \<Rightarrow> string" where
  "str_upper s = map upper_char s"

text \<open>
  \<open>s.title()\<close>: a cased character that follows an uncased one (or starts the string) is
  upper-cased, a cased character that follows a cased one is lower-cased. The flag is
  CPython's \<open>previous_is_cased\<close>.
\<close>

fun title_from :: "bool \<Rightarrow> string \<Rightarrow> string" where
  "title_from previous_is_cased [] = []"
| "title_from previous_is_cased (c # cs) =
     (if islower c then (if previous_is_cased then c else upper_char c) # title_from True cs
      else if isupper c then (if previous_is_cased then lower_char c else c) # title_from True cs
      else c # title_from False cs)"

definition str_title :: "string \<Rightarrow> string" where
  "str_title s = title_from False s"

text \<open>\<open>s.split(sep)\<close> for a one-character separator: never the empty list.\<close>

fun str_split :: "char \<Rightarrow> string \<Rightarrow> string list" where
  "str_split sep [] = [[]]"
| "str_split sep (c # cs) =
     (if c = sep then [] # str_split sep cs
      else (case str_split sep cs of
              [] \<Rightarrow> [[c]]
            | w # ws \<Rightarrow> (c # w) # ws))"

text \<open>\<open>sep.join(parts)\<close>.\<close>

fun str_join :: "string \<Rightarrow> string list \<Rightarrow> string" where
  "str_join sep [] = []"
| "str_join sep [p] = p"
| "str_join sep (p # q # ps) = p @ sep @ str_join sep (q # ps)"

text \<open>\<open>s.startswith(p)\<close> and the substring test \<open>sub in s\<close>.\<close>

fun str_startswith :: "string \<Rightarrow> string \<Rightarrow> bool" where
  "str_startswith s [] = True"
| "str_startswith [] (p # ps) = False"
| "str_startswith (c # cs) (p # ps) = (c = p \<and> str_startswith cs ps)"

fun str_contains :: "string \<Rightarrow> string \<Rightarrow> bool" where
  "str_contains sub [] = (sub = [])"
| "str_contains sub (c # cs) = (str_startswith (c # cs) sub \<or> str_contains sub cs)"

text \<open>
  \<open>str(n)\<close> of an integer, and \<open>s.isdigit()\<close> (true for a non-empty string of digits).
\<close>

definition digit_char :: "nat \<Rightarrow> char" where
  "digit_char d = ''0123456789'' ! d"

function str_nat :: "nat \<Rightarrow> string" where
  "str_nat n = (if n < 10 then [digit_char n] else str_nat (n div 10) @ [digit_char (n mod 10)])"
  by pat_completeness auto
termination
  by (relation "measure (\<lambda>n. n)") auto

declare str_nat.simps [simp del]

definition str_int :: "int \<Rightarrow> string" where
  "str_int i = (if i < 0 then CHR ''-'' # str_nat (nat (- i)) else str_nat (nat i))"

definition isdigit :: "string \<Rightarrow> bool" where
  "isdigit s = (s \<noteq> [] \<and> list_all (\<lambda>c. c \<in> set ''0123456789'') s)"

section \<open>Entity classification and normalization\<close>

text \<open>
  The hyphenated species names of \<open>is_special_form\<close> and \<open>format_pokemon_name\<close> (the
  source writes the same list in both).
\<close>

definition exceptions :: "string list" where
  "exceptions = [''kommo-o'', ''hakamo-o'', ''jangmo-o'', ''type-null'', ''ho-oh'', ''porygon-z'']"

definition is_special_form :: "string \<Rightarrow> bool" where
  "is_special_form pokemon_name =
     (if CHR ''-'' \<in> set pokemon_name \<and> pokemon_name \<notin> set exceptions then True else False)"

definition gmax_indicators :: "string list" where
  "gmax_indicators = [''gmax-'', ''gigantamax-'']"

definition gender_indicators :: "string list" where
  "gender_indicators = [''-male'', ''-female'']"

definition is_gmax_or_gender_form :: "string \<Rightarrow> bool" where
  "is_gmax_or_gender_form pokemon_name =
     list_ex (\<lambda>indicator. str_contains indicator (str_lower pokemon_name))
       (gmax_indicators @ gender_indicators)"

definition prefix_forms :: "(string \<times> string) list" where
  "prefix_forms =
     [(''mega'', ''Mega''), (''alolan'', ''Alolan''), (''galarian'', ''Galarian''),
      (''hisuian'', ''Hisuian''), (''paldean'', ''Paldean''), (''primal'', ''Primal'')]"

definition format_pokemon_name :: "string \<Rightarrow> string" where
  "format_pokemon_name pokemon_name =
     (if str_lower pokemon_name \<in> set exceptions then str_title pokemon_name
      else if CHR ''-'' \<notin> set pokemon_name then str_title pokemon_name
      else
        (let parts = str_split CHR ''-'' pokemon_name;
             base_name = str_title (hd parts);
             form_name = str_join ''-'' (tl parts)
         in case map_of prefix_forms (str_lower form_name) of
              Some prefix \<Rightarrow> prefix @ '' '' @ base_name
            | None \<Rightarrow>
                if str_startswith (str_lower form_name) ''mega'' then
                  (if length parts > 2
                   then ''Mega '' @ base_name @ '' '' @ str_upper (last parts)
                   else ''Mega '' @ base_name)
                else base_name @ '' ('' @ str_title form_name @ '')''))"

definition ultra_beasts :: "string list" where
  "ultra_beasts =
     [''nihilego'', ''buzzwole'', ''pheromosa'', ''xurkitree'', ''celesteela'',
      ''kartana'', ''guzzlord'', ''poipole'', ''naganadel'', ''stakataka'', ''blacephalon'']"

definition paradox_pokemon :: "string list" where
  "paradox_pokemon =
     [''great-tusk'', ''scream-tail'', ''brute-bonnet'', ''flutter-mane'', ''slither-wing'',
      ''sandy-shocks'', ''iron-treads'', ''iron-bundle'', ''iron-hands'', ''iron-jugulis'',
      ''iron-moth'', ''iron-thorns'', ''iron-valiant'', ''roaring-moon'', ''iron-leaves'',
      ''walking-wake'', ''gouging-fire'', ''raging-bolt'', ''iron-boulder'', ''iron-crown'']"

definition is_excluded_pokemon :: "string \<Rightarrow> bool" where
  "is_excluded_pokemon pokemon_name =
     (pokemon_name \<in> set ultra_beasts \<or> pokemon_name \<in> set paradox_pokemon)"

definition form_indicators :: "string list" where
  "form_indicators =
     [''mega'', ''alolan'', ''galarian'', ''hisuian'', ''paldean'',
      ''primal'', ''eternamax'', ''gmax'', ''gigantamax'']"

definition get_base_form_name :: "string \<Rightarrow> string" where
  "get_base_form_name pokemon_name =
     (let base_name = hd (str_split CHR ''-'' pokemon_name)
      in if str_lower base_name \<in> set form_indicators
            \<and> length (str_split CHR ''-'' pokemon_name) > 1
         then str_split CHR ''-'' pokemon_name ! 1
         else base_name)"

section \<open>Type effectiveness engine\<close>

text \<open>
  Every entry of a catalog listing or of a damage-relation list is a JSON object with a
  \<open>name\<close> and a \<open>url\<close> (the field \<open>ref_url\<close> here, since \<open>url\<close> names the fetch functions'
  parameter). A type's damage relations carry the two lists the engine reads.
\<close>

record api_ref =
  name :: string
  ref_url :: string

record damage_relations =
  no_damage_from :: "api_ref list"
  half_damage_from :: "api_ref list"

type_synonym type_chart = "string \<rightharpoonup> damage_relations"

datatype error = KeyError | TypeError | ValueError | OverflowError | FetchFailed

text \<open>The three accumulators of the engine: immunities, quarter damage, half damage.\<close>

record resistances =
  immunities :: "string set"
  quarter_damage :: "string set"
  half_damage :: "string set"

definition no_resistances :: resistances where
  "no_resistances = \<lparr>immunities = {}, quarter_damage = {}, half_damage = {}\<rparr>"

text \<open>The inner loop over \<open>relations['no_damage_from']\<close>.\<close>

fun add_immunities :: "api_ref list \<Rightarrow> resistances \<Rightarrow> resistances" where
  "add_immunities [] r = r"
| "add_immunities (immunity # rest) r =
     add_immunities rest (r\<lparr>immunities := insert (name immunity) (immunities r)\<rparr>)"

text \<open>The inner loop over \<open>relations['half_damage_from']\<close>, with its four branches.\<close>

definition add_resistance :: "string \<Rightarrow> resistances \<Rightarrow> resistances" where
  "add_resistance resistance_type r =
     (if resistance_type \<in> immunities r then r
      else if resistance_type \<in> quarter_damage r then r
      else if resistance_type \<in> half_damage r then
        r\<lparr>quarter_damage := insert resistance_type (quarter_damage r),
          half_damage := half_damage r - {resistance_type}\<rparr>
      else r\<lparr>half_damage := insert resistance_type (half_damage r)\<rparr>)"

fun add_resistances :: "api_ref list \<Rightarrow> resistances \<Rightarrow> resistances" where
  "add_resistances [] r = r"
| "add_resistances (resistance # rest) r =
     add_resistances rest (add_resistance (name resistance) r)"

text \<open>
  The outer loop over the entity's types; \<open>type_chart[poke_type]\<close> raises \<open>KeyError\<close>
  for a type the chart does not hold.
\<close>

fun accumulate_types :: "type_chart \<Rightarrow> string list \<Rightarrow> resistances \<Rightarrow> error + resistances" where
  "accumulate_types type_chart [] r = Inr r"
| "accumulate_types type_chart (poke_type # rest) r =
     (case type_chart poke_type of
        None \<Rightarrow> Inl KeyError
      | Some relations \<Rightarrow>
          accumulate_types type_chart rest
            (add_resistances (half_damage_from relations)
               (add_immunities (no_damage_from relations) r)))"

definition defensive_sets :: "string list \<Rightarrow> type_chart \<Rightarrow> error + resistances" where
  "defensive_sets pokemon_types type_chart =
     accumulate_types type_chart pokemon_types no_resistances"

definition score_of :: "resistances \<Rightarrow> nat" where
  "score_of r = card (immunities r) + card (quarter_damage r) + card (half_damage r)"

definition calculate_defensive_effectiveness :: "string list \<Rightarrow> type_chart \<Rightarrow> error + nat" where
  "calculate_defensive_effectiveness pokemon_types type_chart =
     (case defensive_sets pokemon_types type_chart of
        Inl e \<Rightarrow> Inl e
      | Inr r \<Rightarrow> Inr (score_of r))"

text \<open>
  What the score is documented to count: the attacking types that occur in a
  \<open>no_damage_from\<close> or \<open>half_damage_from\<close> list of one of the entity's types.
\<close>

definition resisted_types :: "string list \<Rightarrow> type_chart \<Rightarrow> string set" where
  "resisted_types pokemon_types type_chart =
     (\<Union>t \<in> set pokemon_types.
        case type_chart t of
          None \<Rightarrow> {}
        | Some relations \<Rightarrow>
            set (map name (no_damage_from relations)) \<union> set (map name (half_damage_from relations)))"

definition ref :: "string \<Rightarrow> api_ref" where
  "ref n = \<lparr>name = n, ref_url = []\<rparr>"

text \<open>
  The catalog's entries for Steel and Ghost: Steel halves Normal, Ghost is immune to it.
\<close>

definition steel_ghost_chart :: type_chart where
  "steel_ghost_chart =
     [''steel'' \<mapsto> \<lparr>no_damage_from = [ref ''poison''],
                      half_damage_from =
                        [ref ''normal'', ref ''flying'', ref ''rock'', ref ''bug'', ref ''steel'',
                         ref ''grass'', ref ''psychic'', ref ''ice'', ref ''dragon'', ref ''fairy'']\<rparr>,
      ''ghost'' \<mapsto> \<lparr>no_damage_from = [ref ''normal'', ref ''fighting''],
                      half_damage_from = [ref ''poison'', ref ''bug'']\<rparr>]"

text \<open>A chart in which two types both halve Dragon and neither is immune to it.\<close>

definition stacking_chart :: type_chart where
  "stacking_chart =
     [''steel'' \<mapsto> \<lparr>no_damage_from = [ref ''poison''],
                      half_damage_from = [ref ''normal'', ref ''dragon'']\<rparr>,
      ''fairy'' \<mapsto> \<lparr>no_damage_from = [],
                      half_damage_from = [ref ''dragon'', ref ''bug'']\<rparr>]"

text \<open>
  Two auxiliary notions for the proofs: the accumulators are finite with quarter and half
  damage disjoint, and an attacking type has been recorded as halved at least once.
\<close>

definition res_ok :: "resistances \<Rightarrow> bool" where
  "res_ok r = (finite (immunities r) \<and> finite (quarter_damage r) \<and> finite (half_damage r)
     \<and> quarter_damage r \<inter> half_damage r = {})"

definition halved :: "string \<Rightarrow> resistances \<Rightarrow> bool" where
  "halved x r = (x \<in> half_damage r \<or> x \<in> quarter_damage r)"


section \<open>Remote data gateway\<close>

text \<open>
  What \<open>response.json()\<close> yields: a decoded JSON value as Python holds it. \<open>JNull\<close> is
  \<open>None\<close>, a number without fraction or exponent is an \<open>int\<close> and any other number a
  \<open>float\<close> (by its value), an array is a \<open>list\<close> and an object a \<open>dict\<close> (by its items,
  whose keys are distinct). The fetch functions hand such a value on as it is.
\<close>

datatype json =
    JNull
  | JBool bool
  | JInt int
  | JFloat rat
  | JStr string
  | JList "json list"
  | JDict "(string \<times> json) list"

text \<open>The truth value of a decoded value (\<open>if base_data:\<close>, \<open>a or b\<close>).\<close>

fun truthy :: "json \<Rightarrow> bool" where
  "truthy JNull = False"
| "truthy (JBool b) = b"
| "truthy (JInt n) = (n \<noteq> 0)"
| "truthy (JFloat x) = (x \<noteq> 0)"
| "truthy (JStr s) = (s \<noteq> [])"
| "truthy (JList l) = (l \<noteq> [])"
| "truthy (JDict items) = (items \<noteq> [])"

text \<open>
  \<open>value[key]\<close> for a string key: the item of a dict or \<open>KeyError\<close>; every other value
  raises \<open>TypeError\<close> (a list or string wants integer indices, the rest cannot be
  subscripted).
\<close>

fun getitem :: "json \<Rightarrow> string \<Rightarrow> error + json" where
  "getitem (JDict items) key =
     (case map_of items key of Some v \<Rightarrow> Inr v | None \<Rightarrow> Inl KeyError)"
| "getitem JNull key = Inl TypeError"
| "getitem (JBool b) key = Inl TypeError"
| "getitem (JInt n) key = Inl TypeError"
| "getitem (JFloat x) key = Inl TypeError"
| "getitem (JStr s) key = Inl TypeError"
| "getitem (JList l) key = Inl TypeError"

text \<open>
  \<open>key in value\<close> for a string key: a key of a dict, an element of a list, a substring of
  a string; every other value raises \<open>TypeError\<close> (it is not iterable).
\<close>

fun contains :: "string \<Rightarrow> json \<Rightarrow> error + bool" where
  "contains key (JDict items) = Inr (key \<in> set (map fst items))"
| "contains key (JList l) = Inr (JStr key \<in> set l)"
| "contains key (JStr s) = Inr (str_contains key s)"
| "contains key JNull = Inl TypeError"
| "contains key (JBool b) = Inl TypeError"
| "contains key (JInt n) = Inl TypeError"
| "contains key (JFloat x) = Inl TypeError"

text \<open>
  The records of the catalog's schema, by the fields the program reads. An entity's detail
  record holds its id, name, types (each \<open>{'slot': n, 'type': {'name', 'url'}}\<close>) and stats
  (each \<open>{'base_stat': n, 'stat': {'name', 'url'}}\<close>).
\<close>

record type_slot =
  slot :: int
  type_ref :: api_ref

record stat_entry =
  base_stat :: int
  stat_ref :: api_ref

record pokemon_data =
  pd_id :: int
  pd_name :: string
  pd_types :: "type_slot list"
  pd_stats :: "stat_entry list"

text \<open>
  Reading a decoded value as a detail record of the schema: a dict whose \<open>id\<close> is an
  int, whose \<open>name\<close> is a string and whose \<open>types\<close> and \<open>stats\<close> are lists of entries of
  the shapes above (further items are ignored). The loop of \<open>main\<close> is modelled on such
  values only.
\<close>

fun as_api_ref :: "json \<Rightarrow> api_ref option" where
  "as_api_ref (JDict items) =
     (case (map_of items ''name'', map_of items ''url'') of
        (Some (JStr n), Some (JStr u)) \<Rightarrow> Some \<lparr>name = n, ref_url = u\<rparr>
      | _ \<Rightarrow> None)"
| "as_api_ref j = None"

fun as_type_slot :: "json \<Rightarrow> type_slot option" where
  "as_type_slot (JDict items) =
     (case (map_of items ''slot'', map_of items ''type'') of
        (Some (JInt n), Some t) \<Rightarrow>
          (case as_api_ref t of
             Some r \<Rightarrow> Some \<lparr>slot = n, type_ref = r\<rparr>
           | None \<Rightarrow> None)
      | _ \<Rightarrow> None)"
| "as_type_slot j = None"

fun as_stat_entry :: "json \<Rightarrow> stat_entry option" where
  "as_stat_entry (JDict items) =
     (case (map_of items ''base_stat'', map_of items ''stat'') of
        (Some (JInt n), Some t) \<Rightarrow>
          (case as_api_ref t of
             Some r \<Rightarrow> Some \<lparr>base_stat = n, stat_ref = r\<rparr>
           | None \<Rightarrow> None)
      | _ \<Rightarrow> None)"
| "as_stat_entry j = None"

fun as_list :: "(json \<Rightarrow> 'a option) \<Rightarrow> json \<Rightarrow> 'a list option" where
  "as_list f (JList l) = those (map f l)"
| "as_list f j = None"

fun as_record :: "json \<Rightarrow> pokemon_data option" where
  "as_record (JDict items) =
     (case (map_of items ''id'', map_of items ''name'',
            map_of items ''types'', map_of items ''stats'') of
        (Some (JInt i), Some (JStr n), Some ts, Some ss) \<Rightarrow>
          (case (as_list as_type_slot ts, as_list as_stat_entry ss) of
             (Some types, Some stats) \<Rightarrow>
               Some \<lparr>pd_id = i, pd_name = n, pd_types = types, pd_stats = stats\<rparr>
           | _ \<Rightarrow> None)
      | _ \<Rightarrow> None)"
| "as_record j = None"

text \<open>
  What \<open>requests.get(url)\<close> can do: raise a \<open>RequestException\<close>, or return a response
  with a status code, a \<open>Retry-After\<close> header (absent, text that \<open>int()\<close> reads as an
  integer, or text that \<open>int()\<close> rejects) and a body on which \<open>response.json()\<close> either
  yields a value or raises \<open>JSONDecodeError\<close>.
\<close>

datatype retry_after_header = NoRetryAfter | RetryAfter int | RetryAfterInvalid

datatype json_body = Json json | NotJson

record response =
  status_code :: int
  retry_after :: retry_after_header
  body :: json_body

datatype reply = Response response | RequestException

text \<open>
  The remote service: the reply to the \<open>n\<close>-th request of the run, sent to a URL. Any
  sequence of replies is a network.
\<close>

record network =
  details_reply :: "nat \<Rightarrow> string \<Rightarrow> reply"
  species_reply :: "nat \<Rightarrow> string \<Rightarrow> reply"

text \<open>
  The mutable state the fetch functions share: the two caches, the number of requests sent
  so far and the durations slept so far (in seconds). Printing is not modelled.
\<close>

record state =
  details_cache :: "string \<rightharpoonup> json"
  species_cache :: "int \<rightharpoonup> json"
  requests :: nat
  slept :: "rat list"

text \<open>
  \<open>time.sleep(seconds)\<close> for an \<open>int\<close>: CPython converts the seconds to a 64-bit count of
  nanoseconds and raises \<open>OverflowError\<close> when that does not fit, then raises
  \<open>ValueError\<close> for a negative duration.
\<close>

definition time_sleep :: "int \<Rightarrow> state \<Rightarrow> error + state" where
  "time_sleep seconds s =
     (if seconds < - 9223372036 \<or> 9223372036 < seconds then Inl OverflowError
      else if seconds < 0 then Inl ValueError
      else Inr (s\<lparr>slept := slept s @ [of_int seconds]\<rparr>))"

text \<open>
  What one iteration of an attempt loop does: return a value, raise, or go on to the next
  attempt (with the URL to use there).
\<close>

datatype step = Return json | Raise error | Continue string

text \<open>
  The \<open>except (json.JSONDecodeError, requests.RequestException)\<close> handler of both fetch
  functions: sleep and go on unless this was the last attempt.
\<close>

definition on_request_failure :: "int \<Rightarrow> int \<Rightarrow> int \<Rightarrow> string \<Rightarrow> state \<Rightarrow> step \<times> state" where
  "on_request_failure attempt max_retries retry_delay url s =
     (if attempt < max_retries - 1 then
        (case time_sleep retry_delay s of
           Inl e \<Rightarrow> (Raise e, s)
         | Inr s' \<Rightarrow> (Continue url, s'))
      else (Raise FetchFailed, s))"

text \<open>
  \<open>int(response.headers.get('Retry-After', retry_delay * 2))\<close>: the server-suggested
  wait, the fallback when the header is absent, or the \<open>ValueError\<close> of \<open>int()\<close>.
\<close>

definition retry_after_seconds :: "response \<Rightarrow> int \<Rightarrow> error + int" where
  "retry_after_seconds r retry_delay =
     (case retry_after r of
        NoRetryAfter \<Rightarrow> Inr (retry_delay * 2)
      | RetryAfter n \<Rightarrow> Inr n
      | RetryAfterInvalid \<Rightarrow> Inl ValueError)"

text \<open>The \<open>429\<close> branch of both fetch functions.\<close>

definition on_rate_limit :: "response \<Rightarrow> int \<Rightarrow> string \<Rightarrow> state \<Rightarrow> step \<times> state" where
  "on_rate_limit r retry_delay url s =
     (case retry_after_seconds r retry_delay of
        Inl e \<Rightarrow> (Raise e, s)
      | Inr seconds \<Rightarrow>
          (case time_sleep seconds s of
             Inl e \<Rightarrow> (Raise e, s)
           | Inr s' \<Rightarrow> (Continue url, s')))"

text \<open>The final \<open>else\<close> branch of both fetch functions: any other status.\<close>

definition on_other_status :: "int \<Rightarrow> string \<Rightarrow> state \<Rightarrow> step \<times> state" where
  "on_other_status retry_delay url s =
     (case time_sleep retry_delay s of
        Inl e \<Rightarrow> (Raise e, s)
      | Inr s' \<Rightarrow> (Continue url, s'))"

text \<open>
  One iteration of the loop of \<open>get_pokemon_details\<close>. The decoded body of a 200 response
  is stored and returned without a look at it.
\<close>

definition details_attempt ::
  "network \<Rightarrow> int \<Rightarrow> int \<Rightarrow> int \<Rightarrow> string \<Rightarrow> state \<Rightarrow> step \<times> state" where
  "details_attempt net max_retries retry_delay attempt url s =
     (let s1 = s\<lparr>requests := Suc (requests s)\<rparr> in
      case details_reply net (requests s) url of
        RequestException \<Rightarrow> on_request_failure attempt max_retries retry_delay url s1
      | Response r \<Rightarrow>
          if status_code r = 200 then
            (case body r of
               NotJson \<Rightarrow> on_request_failure attempt max_retries retry_delay url s1
             | Json pokemon_data \<Rightarrow>
                 (Return pokemon_data,
                  s1\<lparr>details_cache := (details_cache s1)(url \<mapsto> pokemon_data)\<rparr>))
          else if status_code r = 429 then on_rate_limit r retry_delay url s1
          else on_other_status retry_delay url s1)"

text \<open>
  The loop \<open>for attempt in range(max_retries)\<close> of \<open>get_pokemon_details\<close> over the
  attempts still to make, and the \<open>return None\<close> after it.
\<close>

fun details_attempts ::
  "network \<Rightarrow> int \<Rightarrow> int \<Rightarrow> string \<Rightarrow> int list \<Rightarrow> state \<Rightarrow> (error + json) \<times> state" where
  "details_attempts net max_retries retry_delay url [] s = (Inr JNull, s)"
| "details_attempts net max_retries retry_delay url (attempt # rest) s =
     (case details_attempt net max_retries retry_delay attempt url s of
        (Return pokemon_data, s') \<Rightarrow> (Inr pokemon_data, s')
      | (Raise e, s') \<Rightarrow> (Inl e, s')
      | (Continue url', s') \<Rightarrow> details_attempts net max_retries retry_delay url' rest s')"

definition get_pokemon_details ::
  "network \<Rightarrow> string \<Rightarrow> int \<Rightarrow> int \<Rightarrow> state \<Rightarrow> (error + json) \<times> state" where
  "get_pokemon_details net url max_retries retry_delay s =
     (case details_cache s url of
        Some pokemon_data \<Rightarrow> (Inr pokemon_data, s)
      | None \<Rightarrow> details_attempts net max_retries retry_delay url [0..max_retries - 1] s)"

definition species_url :: "string \<Rightarrow> string" where
  "species_url i = ''https://pokeapi.co/api/v2/pokemon-species/'' @ i @ ''/''"

definition default_data :: json where
  "default_data = JDict [(''is_legendary'', JBool False), (''is_mythical'', JBool False)]"

text \<open>
  One iteration of the loop of \<open>get_species_info\<close>, for an integer id (the ids of the
  schema).
\<close>

definition species_attempt ::
  "network \<Rightarrow> int \<Rightarrow> int \<Rightarrow> int \<Rightarrow> int \<Rightarrow> string \<Rightarrow> state \<Rightarrow> step \<times> state" where
  "species_attempt net pokemon_id max_retries retry_delay attempt url s =
     (let s1 = s\<lparr>requests := Suc (requests s)\<rparr> in
      case species_reply net (requests s) url of
        RequestException \<Rightarrow> on_request_failure attempt max_retries retry_delay url s1
      | Response r \<Rightarrow>
          if status_code r = 200 then
            (case body r of
               NotJson \<Rightarrow> on_request_failure attempt max_retries retry_delay url s1
             | Json species_data \<Rightarrow>
                 (Return species_data,
                  s1\<lparr>species_cache := (species_cache s1)(pokemon_id \<mapsto> species_data)\<rparr>))
          else if status_code r = 404 then
            (let base_id = hd (str_split CHR ''-'' (str_int pokemon_id)) in
             if isdigit base_id then (Continue (species_url base_id), s1)
             else (Return default_data,
                   s1\<lparr>species_cache := (species_cache s1)(pokemon_id \<mapsto> default_data)\<rparr>))
          else if status_code r = 429 then on_rate_limit r retry_delay url s1
          else on_other_status retry_delay url s1)"

text \<open>
  The loop of \<open>get_species_info\<close>, and the default record stored and returned after it.
\<close>

fun species_attempts ::
  "network \<Rightarrow> int \<Rightarrow> int \<Rightarrow> int \<Rightarrow> string \<Rightarrow> int list \<Rightarrow> state
     \<Rightarrow> (error + json) \<times> state" where
  "species_attempts net pokemon_id max_retries retry_delay url [] s =
     (Inr default_data, s\<lparr>species_cache := (species_cache s)(pokemon_id \<mapsto> default_data)\<rparr>)"
| "species_attempts net pokemon_id max_retries retry_delay url (attempt # rest) s =
     (case species_attempt net pokemon_id max_retries retry_delay attempt url s of
        (Return species_data, s') \<Rightarrow> (Inr species_data, s')
      | (Raise e, s') \<Rightarrow> (Inl e, s')
      | (Continue url', s') \<Rightarrow>
          species_attempts net pokemon_id max_retries retry_delay url' rest s')"

definition get_species_info ::
  "network \<Rightarrow> int \<Rightarrow> int \<Rightarrow> int \<Rightarrow> state \<Rightarrow> (error + json) \<times> state" where
  "get_species_info net pokemon_id max_retries retry_delay s =
     (case species_cache s pokemon_id of
        Some species_data \<Rightarrow> (Inr species_data, s)
      | None \<Rightarrow>
          species_attempts net pokemon_id max_retries retry_delay
            (species_url (str_int pokemon_id)) [0..max_retries - 1] s)"

definition pokemon_url :: "string \<Rightarrow> string" where
  "pokemon_url n = ''https://pokeapi.co/api/v2/pokemon/'' @ n @ ''/''"

text \<open>
  The expression \<open>species_data['is_legendary'] or species_data['is_mythical']\<close>, by its
  truth value: the second item is read only when the first is false.
\<close>

definition legendary_or_mythical :: "json \<Rightarrow> error + bool" where
  "legendary_or_mythical species_data =
     (case getitem species_data ''is_legendary'' of
        Inl e \<Rightarrow> Inl e
      | Inr legendary \<Rightarrow>
          if truthy legendary then Inr True
          else (case getitem species_data ''is_mythical'' of
                  Inl e \<Rightarrow> Inl e
                | Inr mythical \<Rightarrow> Inr (truthy mythical)))"

text \<open>
  \<open>is_legendary_or_mythical\<close>, by the truth value of what it returns: everything but the
  final \<open>return False\<close> runs inside \<open>try ... except Exception: return True\<close>. Both fetches
  use the default budget. The result is \<open>None\<close> where the function is not modelled: when
  the \<open>id\<close> of the base form's record is not an int.
\<close>

definition is_legendary_or_mythical ::
  "network \<Rightarrow> string \<Rightarrow> int \<Rightarrow> state \<Rightarrow> bool option \<times> state" where
  "is_legendary_or_mythical net pokemon_name pokemon_id s =
     (case get_species_info net pokemon_id 3 1 s of
        (Inl e, s1) \<Rightarrow> (Some True, s1)
      | (Inr species_data, s1) \<Rightarrow>
          (case legendary_or_mythical species_data of
             Inl e \<Rightarrow> (Some True, s1)
           | Inr True \<Rightarrow> (Some True, s1)
           | Inr False \<Rightarrow>
               if is_special_form pokemon_name then
                 (case get_pokemon_details net
                         (pokemon_url (get_base_form_name pokemon_name)) 3 1 s1 of
                    (Inl e, s2) \<Rightarrow> (Some True, s2)
                  | (Inr base_data, s2) \<Rightarrow>
                      if truthy base_data then
                        (case getitem base_data ''id'' of
                           Inl e \<Rightarrow> (Some True, s2)
                         | Inr (JInt base_id) \<Rightarrow>
                             (case get_species_info net base_id 3 1 s2 of
                                (Inl e, s3) \<Rightarrow> (Some True, s3)
                              | (Inr base_species, s3) \<Rightarrow>
                                  (case legendary_or_mythical base_species of
                                     Inl e \<Rightarrow> (Some True, s3)
                                   | Inr flag \<Rightarrow> (Some flag, s3)))
                         | Inr other \<Rightarrow> (None, s2))
                      else (Some False, s2))
               else (Some False, s1)))"

text \<open>
  \<open>get_national_dex_number\<close>: the \<open>id\<close> item of the species record when it has one, the
  entity's own id otherwise and when anything raises.
\<close>

definition get_national_dex_number ::
  "network \<Rightarrow> string \<Rightarrow> int \<Rightarrow> state \<Rightarrow> json \<times> state" where
  "get_national_dex_number net pokemon_name pokemon_id s =
     (case get_species_info net pokemon_id 3 1 s of
        (Inl e, s1) \<Rightarrow> (JInt pokemon_id, s1)
      | (Inr species_data, s1) \<Rightarrow>
          (case contains ''id'' species_data of
             Inl e \<Rightarrow> (JInt pokemon_id, s1)
           | Inr False \<Rightarrow> (JInt pokemon_id, s1)
           | Inr True \<Rightarrow>
               (case getitem species_data ''id'' of
                  Inl e \<Rightarrow> (JInt pokemon_id, s1)
                | Inr national_dex_no \<Rightarrow> (national_dex_no, s1))))"

section \<open>Analysis pipeline\<close>

text \<open>
  \<open>get_pokemon_signature\<close>: the sorted type names and the stat values in catalog order.
  Python compares strings by code point, which for ASCII names is the lexicographic
  order on bytes.
\<close>

type_synonym signature = "string list \<times> int list"

definition get_pokemon_signature :: "pokemon_data \<Rightarrow> signature" where
  "get_pokemon_signature pokemon_data =
     (sort (map (\<lambda>t. name (type_ref t)) (pd_types pokemon_data)),
      map base_stat (pd_stats pokemon_data))"

text \<open>A row of \<open>results\<close> (the dict appended in the loop of \<open>main\<close>).\<close>

record result_row =
  row_name :: string
  row_id :: json
  row_types :: string
  base_stats_total :: int
  defensive_advantages :: nat

text \<open>
  How the loop body of \<open>main\<close> ends for one entity: at one of its six \<open>continue\<close>
  statements, after appending a row (the local \<open>signature_key\<close> is kept with it), or in the
  \<open>except Exception\<close> handler. \<open>OffSchema\<close> marks an entity for which the loop body is not
  modelled: a fetched value that is neither \<open>None\<close> nor a record of the schema.
\<close>

datatype exclusion =
  Denylisted | NoRecord | Legendary | BelowThreshold | SameAsBaseForm | DuplicateKey

datatype outcome =
  Excluded exclusion
| Included "string \<times> signature" result_row
| Errored error
| OffSchema

text \<open>
  The variables of \<open>main\<close> that the loop updates, with the state of the gateway.
  \<open>processed_signatures\<close> is the dict whose values are all \<open>True\<close>.
\<close>

record run =
  results :: "result_row list"
  error_count :: nat
  processed_signatures :: "(string \<times> signature) \<rightharpoonup> bool"
  world :: state

definition initial_run :: "state \<Rightarrow> run" where
  "initial_run w =
     \<lparr>results = [], error_count = 0, processed_signatures = Map.empty, world = w\<rparr>"

text \<open>
  The inner \<open>try\<close> of the loop body: fetch the base form and compare signatures. A failed
  fetch, and the \<open>TypeError\<close> of \<open>get_pokemon_signature(None)\<close>, are swallowed by the bare
  \<open>except: pass\<close>. The result is \<open>None\<close> when the base form's value is neither \<open>None\<close> nor
  a record of the schema.
\<close>

definition same_signature_as_base ::
  "network \<Rightarrow> string \<Rightarrow> signature \<Rightarrow> state \<Rightarrow> bool option \<times> state" where
  "same_signature_as_base net base_name pokemon_signature s =
     (case get_pokemon_details net (pokemon_url base_name) 3 1 s of
        (Inl e, s1) \<Rightarrow> (Some False, s1)
      | (Inr base_data, s1) \<Rightarrow>
          if base_data = JNull then (Some False, s1)
          else (case as_record base_data of
                  None \<Rightarrow> (None, s1)
                | Some base_record \<Rightarrow>
                    (Some (get_pokemon_signature base_record = pokemon_signature), s1)))"

text \<open>The cooldown after every twentieth row.\<close>

definition cooldown :: "run \<Rightarrow> run" where
  "cooldown r =
     (if length (results r) mod 20 = 0
      then r\<lparr>world := (world r)\<lparr>slept := slept (world r) @ [1 / 2]\<rparr>\<rparr>
      else r)"

text \<open>The body of the loop \<open>for pokemon in tqdm(all_pokemon)\<close>.\<close>

definition process_pokemon ::
  "network \<Rightarrow> type_chart \<Rightarrow> int \<Rightarrow> api_ref \<Rightarrow> run \<Rightarrow> outcome \<times> run" where
  "process_pokemon net type_chart min_bst pokemon r =
     (if is_excluded_pokemon (name pokemon) then (Excluded Denylisted, r)
      else
        case get_pokemon_details net (ref_url pokemon) 3 1 (world r) of
          (Inl e, w1) \<Rightarrow> (Errored e, r\<lparr>error_count := Suc (error_count r), world := w1\<rparr>)
        | (Inr fetched, w1) \<Rightarrow>
            if fetched = JNull then (Excluded NoRecord, r\<lparr>world := w1\<rparr>)
            else
            (case as_record fetched of
               None \<Rightarrow> (OffSchema, r\<lparr>world := w1\<rparr>)
             | Some pokemon_data \<Rightarrow>
            (case get_national_dex_number net (pd_name pokemon_data) (pd_id pokemon_data) w1 of
               (national_dex_no, w2) \<Rightarrow>
            (case is_legendary_or_mythical net (pd_name pokemon_data) (pd_id pokemon_data) w2 of
               (None, w3) \<Rightarrow> (OffSchema, r\<lparr>world := w3\<rparr>)
             | (Some legendary, w3) \<Rightarrow>
            if legendary then (Excluded Legendary, r\<lparr>world := w3\<rparr>)
            else
              let stats_total = sum_list (map base_stat (pd_stats pokemon_data)) in
              if stats_total < min_bst then (Excluded BelowThreshold, r\<lparr>world := w3\<rparr>)
              else
                let pokemon_signature = get_pokemon_signature pokemon_data;
                    base_name = get_base_form_name (pd_name pokemon_data)
                in
                case (if base_name \<noteq> pd_name pokemon_data
                      then same_signature_as_base net base_name pokemon_signature w3
                      else (Some False, w3)) of
                  (None, w4) \<Rightarrow> (OffSchema, r\<lparr>world := w4\<rparr>)
                | (Some same, w4) \<Rightarrow>
                if same then (Excluded SameAsBaseForm, r\<lparr>world := w4\<rparr>)
                else
                  let signature_key = (base_name, pokemon_signature) in
                  if signature_key \<in> dom (processed_signatures r)
                  then (Excluded DuplicateKey, r\<lparr>world := w4\<rparr>)
                  else
                    let r1 = r\<lparr>processed_signatures :=
                                  (processed_signatures r)(signature_key \<mapsto> True),
                                world := w4\<rparr>;
                        pokemon_types = map (\<lambda>t. name (type_ref t)) (pd_types pokemon_data)
                    in
                    case calculate_defensive_effectiveness pokemon_types type_chart of
                      Inl e \<Rightarrow> (Errored e, r1\<lparr>error_count := Suc (error_count r1)\<rparr>)
                    | Inr defensive_score \<Rightarrow>
                        let row = \<lparr>row_name = format_pokemon_name (pd_name pokemon_data),
                                   row_id = national_dex_no,
                                   row_types = str_join '', '' (map str_title pokemon_types),
                                   base_stats_total = stats_total,
                                   defensive_advantages = defensive_score\<rparr>
                        in (Included signature_key row,
                            cooldown (r1\<lparr>results := results r1 @ [row]\<rparr>))))))"

fun main_loop ::
  "network \<Rightarrow> type_chart \<Rightarrow> int \<Rightarrow> api_ref list \<Rightarrow> run \<Rightarrow> outcome list \<times> run" where
  "main_loop net type_chart min_bst [] r = ([], r)"
| "main_loop net type_chart min_bst (pokemon # rest) r =
     (case process_pokemon net type_chart min_bst pokemon r of
        (out, r1) \<Rightarrow>
          (case main_loop net type_chart min_bst rest r1 of
             (outs, r2) \<Rightarrow> (out # outs, r2)))"

text \<open>The pre-filter of the catalog listing.\<close>

fun filter_forms :: "bool \<Rightarrow> api_ref list \<Rightarrow> api_ref list" where
  "filter_forms include_forms [] = []"
| "filter_forms include_forms (pokemon # rest) =
     (if is_gmax_or_gender_form (name pokemon) then filter_forms include_forms rest
      else if \<not> is_special_form (name pokemon) then pokemon # filter_forms include_forms rest
      else if include_forms then pokemon # filter_forms include_forms rest
      else filter_forms include_forms rest)"

text \<open>
  \<open>df.sort_values(by=['defensive_advantages', 'base_stats_total'], ascending=False)\<close>:
  with two keys pandas sorts by a lexicographic, stable sort, descending on both keys,
  so rows that tie on both keys keep their order in the frame.
\<close>

definition sort_values :: "result_row list \<Rightarrow> result_row list" where
  "sort_values rows =
     sort_key (\<lambda>row. (- int (defensive_advantages row), - base_stats_total row)) rows"

text \<open>
  \<open>main\<close> from the catalog listing on: the rows handed to the report (none when no entity
  matched), with the final state. The listing and the type chart are its inputs.
\<close>

definition main ::
  "network \<Rightarrow> type_chart \<Rightarrow> bool \<Rightarrow> int \<Rightarrow> api_ref list \<Rightarrow> state
     \<Rightarrow> result_row list option \<times> run" where
  "main net type_chart include_forms min_bst all_pokemon w =
     (case main_loop net type_chart min_bst (filter_forms include_forms all_pokemon)
             (initial_run w) of
        (outs, r) \<Rightarrow>
          (if results r = [] then None else Some (sort_values (results r)), r))"

text \<open>The keys and rows of the entities a run included, in order.\<close>

fun included :: "outcome list \<Rightarrow> ((string \<times> signature) \<times> result_row) list" where
  "included [] = []"
| "included (Included k row # outs) = (k, row) # included outs"
| "included (out # outs) = included outs"

text \<open>
  The order of the report: a row with a higher score comes first, and among rows of equal
  score one with a higher (or equal) total comes first.
\<close>

definition ranked_before :: "result_row \<Rightarrow> result_row \<Rightarrow> bool" where
  "ranked_before a b =
     (defensive_advantages b < defensive_advantages a
      \<or> (defensive_advantages a = defensive_advantages b
          \<and> base_stats_total b \<le> base_stats_total a))"

section \<open>Example networks and entities\<close>

definition fresh_state :: state where
  "fresh_state =
     \<lparr>details_cache = Map.empty, species_cache = Map.empty, requests = 0, slept = []\<rparr>"

definition status_reply :: "int \<Rightarrow> reply" where
  "status_reply code = Response \<lparr>status_code = code, retry_after = NoRetryAfter, body = NotJson\<rparr>"

definition json_reply :: "json \<Rightarrow> reply" where
  "json_reply j = Response \<lparr>status_code = 200, retry_after = NoRetryAfter, body = Json j\<rparr>"


text \<open>The JSON objects of the records of the schema.\<close>

definition json_of_ref :: "api_ref \<Rightarrow> json" where
  "json_of_ref r = JDict [(''name'', JStr (name r)), (''url'', JStr (ref_url r))]"

definition json_of_type_slot :: "type_slot \<Rightarrow> json" where
  "json_of_type_slot t = JDict [(''slot'', JInt (slot t)), (''type'', json_of_ref (type_ref t))]"

definition json_of_stat_entry :: "stat_entry \<Rightarrow> json" where
  "json_of_stat_entry e =
     JDict [(''base_stat'', JInt (base_stat e)), (''effort'', JInt 0),
            (''stat'', json_of_ref (stat_ref e))]"

definition json_of_pokemon :: "pokemon_data \<Rightarrow> json" where
  "json_of_pokemon d =
     JDict [(''id'', JInt (pd_id d)), (''name'', JStr (pd_name d)),
            (''stats'', JList (map json_of_stat_entry (pd_stats d))),
            (''types'', JList (map json_of_type_slot (pd_types d)))]"

definition species_json :: "int \<Rightarrow> bool \<Rightarrow> bool \<Rightarrow> json" where
  "species_json i legendary mythical =
     JDict [(''id'', JInt i), (''is_legendary'', JBool legendary),
            (''is_mythical'', JBool mythical)]"

definition stat :: "string \<Rightarrow> int \<Rightarrow> stat_entry" where
  "stat n v = \<lparr>base_stat = v, stat_ref = ref n\<rparr>"

definition raichu :: pokemon_data where
  "raichu =
     \<lparr>pd_id = 26, pd_name = ''raichu'',
      pd_types = [\<lparr>slot = 1, type_ref = ref ''electric''\<rparr>],
      pd_stats = [stat ''hp'' 60, stat ''attack'' 90, stat ''defense'' 55,
                  stat ''special-attack'' 90, stat ''special-defense'' 80, stat ''speed'' 110]\<rparr>"

definition plain_species :: json where
  "plain_species = species_json 26 False False"

definition pikachu :: pokemon_data where
  "pikachu =
     \<lparr>pd_id = 25, pd_name = ''pikachu'',
      pd_types = [\<lparr>slot = 1, type_ref = ref ''electric''\<rparr>],
      pd_stats = [stat ''hp'' 35, stat ''attack'' 55, stat ''defense'' 40,
                  stat ''special-attack'' 50, stat ''special-defense'' 50, stat ''speed'' 90]\<rparr>"

text \<open>A cosplay form of Pikachu: another id and name, the same types and stats.\<close>

definition pikachu_rock_star :: pokemon_data where
  "pikachu_rock_star = pikachu\<lparr>pd_id := 10080, pd_name := ''pikachu-rock-star''\<rparr>"

text \<open>The entry of the catalog listing for a name.\<close>

definition listed :: "string \<Rightarrow> api_ref" where
  "listed n = \<lparr>name = n, ref_url = pokemon_url n\<rparr>"

text \<open>The catalog's entry for Electric.\<close>

definition electric_chart :: type_chart where
  "electric_chart =
     [''electric'' \<mapsto>
        \<lparr>no_damage_from = [],
         half_damage_from = [ref ''flying'', ref ''steel'', ref ''electric'']\<rparr>]"

text \<open>A service that answers every request with a server error.\<close>

definition always_500 :: network where
  "always_500 =
     \<lparr>details_reply = (\<lambda>n u. status_reply 500), species_reply = (\<lambda>n u. status_reply 500)\<rparr>"

text \<open>A service that serves Raichu and its species record at once.\<close>

definition serves_raichu :: network where
  "serves_raichu =
     \<lparr>details_reply = (\<lambda>n u. json_reply (json_of_pokemon raichu)),
      species_reply = (\<lambda>n u. json_reply plain_species)\<rparr>"

text \<open>
  A service that serves Pikachu under its own URL and the cosplay form under every other,
  with Pikachu's species record for both.
\<close>

definition serves_pikachu :: network where
  "serves_pikachu =
     \<lparr>details_reply = (\<lambda>n u. if u = pokemon_url ''pikachu''
                              then json_reply (json_of_pokemon pikachu)
                              else json_reply (json_of_pokemon pikachu_rock_star)),
      species_reply = (\<lambda>n u. json_reply (species_json 25 False False))\<rparr>"




text \<open>
  A service whose species records carry no flag and whose detail endpoint is down: the
  base form of an alternate form cannot be fetched.
\<close>

definition details_down :: network where
  "details_down =
     \<lparr>details_reply = (\<lambda>n u. status_reply 500),
      species_reply = (\<lambda>n u. json_reply plain_species)\<rparr>"

text \<open>A service that cannot be reached: every request raises.\<close>

definition unreachable :: network where
  "unreachable =
     \<lparr>details_reply = (\<lambda>n u. RequestException), species_reply = (\<lambda>n u. RequestException)\<rparr>"

text \<open>
  Services for the ways the legendary check can raise: a species record without flags; a
  detail endpoint that raises; a base form's record without an id; a species endpoint that
  raises after its first reply; one that serves records without flags after its first
  reply.
\<close>

definition flagless_species :: network where
  "flagless_species =
     \<lparr>details_reply = (\<lambda>n u. json_reply (json_of_pokemon pikachu)),
      species_reply = (\<lambda>n u. json_reply (JDict [(''id'', JInt 25)]))\<rparr>"

definition details_unreachable :: network where
  "details_unreachable =
     \<lparr>details_reply = (\<lambda>n u. RequestException),
      species_reply = (\<lambda>n u. json_reply (species_json 25 False False))\<rparr>"

definition base_without_id :: network where
  "base_without_id =
     \<lparr>details_reply = (\<lambda>n u. json_reply (JDict [(''name'', JStr ''pikachu'')])),
      species_reply = (\<lambda>n u. json_reply (species_json 25 False False))\<rparr>"

definition species_once :: network where
  "species_once =
     \<lparr>details_reply = (\<lambda>n u. json_reply (json_of_pokemon pikachu)),
      species_reply = (\<lambda>n u. if n = 0 then json_reply (species_json 25 False False)
                              else RequestException)\<rparr>"

definition base_species_flagless :: network where
  "base_species_flagless =
     \<lparr>details_reply = (\<lambda>n u. json_reply (json_of_pokemon pikachu)),
      species_reply = (\<lambda>n u. if n = 0 then json_reply (species_json 25 False False)
                              else json_reply (JDict [(''id'', JInt 25)]))\<rparr>"

section \<open>Properties of the type effectiveness engine\<close>

lemma add_immunities_sets:
  "immunities (add_immunities l r) = immunities r \<union> set (map name l)"
  "quarter_damage (add_immunities l r) = quarter_damage r"
  "half_damage (add_immunities l r) = half_damage r"
  by (induction l arbitrary: r) auto

lemma res_ok_add_immunities: "res_ok r \<Longrightarrow> res_ok (add_immunities l r)"
  by (simp add: res_ok_def add_immunities_sets)

lemma immunities_add_resistance [simp]: "immunities (add_resistance x r) = immunities r"
  by (simp add: add_resistance_def)

lemma immunities_add_resistances [simp]: "immunities (add_resistances l r) = immunities r"
  by (induction l arbitrary: r) auto

lemma res_ok_add_resistance: "res_ok r \<Longrightarrow> res_ok (add_resistance x r)"
  by (auto simp: res_ok_def add_resistance_def)

lemma res_ok_add_resistances: "res_ok r \<Longrightarrow> res_ok (add_resistances l r)"
  by (induction l arbitrary: r) (auto simp: res_ok_add_resistance)

lemma resisted_add_resistance:
  assumes "res_ok r"
  shows "card (quarter_damage r) + card (half_damage r)
         \<le> card (quarter_damage (add_resistance x r)) + card (half_damage (add_resistance x r))"
proof -
  from assms have fin: "finite (quarter_damage r)" "finite (half_damage r)"
    and dis: "quarter_damage r \<inter> half_damage r = {}"
    by (auto simp: res_ok_def)
  show ?thesis
  proof (cases "x \<in> immunities r \<or> x \<in> quarter_damage r")
    case True
    then show ?thesis by (auto simp: add_resistance_def)
  next
    case False
    show ?thesis
    proof (cases "x \<in> half_damage r")
      case True
      with fin have "card (half_damage r - {x}) = card (half_damage r) - 1" and "0 < card (half_damage r)"
        by (auto simp: card_gt_0_iff)
      moreover from False fin have "card (insert x (quarter_damage r)) = Suc (card (quarter_damage r))"
        by simp
      ultimately show ?thesis using False True by (simp add: add_resistance_def)
    next
      case nothalf: False
      with fin have "card (insert x (half_damage r)) = Suc (card (half_damage r))" by simp
      then show ?thesis using False nothalf by (simp add: add_resistance_def)
    qed
  qed
qed

lemma resisted_add_resistances:
  "res_ok r \<Longrightarrow> card (quarter_damage r) + card (half_damage r)
         \<le> card (quarter_damage (add_resistances l r)) + card (half_damage (add_resistances l r))"
proof (induction l arbitrary: r)
  case Nil
  then show ?case by simp
next
  case (Cons a l)
  have "card (quarter_damage r) + card (half_damage r)
      \<le> card (quarter_damage (add_resistance (name a) r)) + card (half_damage (add_resistance (name a) r))"
    by (rule resisted_add_resistance [OF Cons.prems])
  also have "\<dots> \<le> card (quarter_damage (add_resistances l (add_resistance (name a) r)))
       + card (half_damage (add_resistances l (add_resistance (name a) r)))"
    by (rule Cons.IH [OF res_ok_add_resistance [OF Cons.prems]])
  finally show ?case by simp
qed

lemma score_one_type:
  assumes "res_ok r"
  shows "score_of r \<le> score_of (add_resistances hs (add_immunities ns r))"
proof -
  let ?r1 = "add_immunities ns r"
  have ok1: "res_ok ?r1" by (rule res_ok_add_immunities [OF assms])
  from assms have "finite (immunities r \<union> set (map name ns))" by (simp add: res_ok_def)
  then have "card (immunities r) \<le> card (immunities ?r1)"
    by (simp add: add_immunities_sets card_mono)
  moreover have "card (quarter_damage r) + card (half_damage r)
      = card (quarter_damage ?r1) + card (half_damage ?r1)"
    by (simp add: add_immunities_sets)
  moreover note resisted_add_resistances [OF ok1, of hs]
  ultimately show ?thesis by (simp add: score_of_def)
qed

lemma accumulate_types_append:
  "accumulate_types c (ts @ us) r =
     (case accumulate_types c ts r of Inl e \<Rightarrow> Inl e | Inr r' \<Rightarrow> accumulate_types c us r')"
  by (induction ts arbitrary: r) (auto split: option.splits)

lemma accumulate_types_total:
  "set ts \<subseteq> dom c \<Longrightarrow> \<exists>r'. accumulate_types c ts r = Inr r'"
  by (induction ts arbitrary: r) (auto split: option.splits)

lemma res_ok_accumulate_types:
  "res_ok r \<Longrightarrow> accumulate_types c ts r = Inr r' \<Longrightarrow> res_ok r'"
proof (induction ts arbitrary: r)
  case Nil
  then show ?case by simp
next
  case (Cons t ts)
  from Cons.prems(2) obtain rel where rel: "c t = Some rel"
    by (auto split: option.splits)
  let ?r1 = "add_resistances (half_damage_from rel) (add_immunities (no_damage_from rel) r)"
  have "res_ok ?r1"
    by (intro res_ok_add_resistances res_ok_add_immunities Cons.prems(1))
  moreover from Cons.prems(2) rel have "accumulate_types c ts ?r1 = Inr r'" by simp
  ultimately show ?case by (rule Cons.IH)
qed

lemma res_ok_no_resistances: "res_ok no_resistances"
  by (simp add: res_ok_def no_resistances_def)

text \<open>
  Claim C10: for a type list whose types are all in the chart, appending one more type of
  the chart never decreases the score: both calls return, and the extended list's score
  is at least the original one.
\<close>

theorem score_monotone_under_extension:
  assumes "set pokemon_types \<subseteq> dom type_chart" and "t \<in> dom type_chart"
  shows "\<exists>a b. calculate_defensive_effectiveness pokemon_types type_chart = Inr a
           \<and> calculate_defensive_effectiveness (pokemon_types @ [t]) type_chart = Inr b
           \<and> a \<le> b"
proof -
  from assms(1) obtain r where r: "accumulate_types type_chart pokemon_types no_resistances = Inr r"
    using accumulate_types_total by blast
  from assms(2) obtain rel where rel: "type_chart t = Some rel" by auto
  have ok: "res_ok r" by (rule res_ok_accumulate_types [OF res_ok_no_resistances r])
  let ?r' = "add_resistances (half_damage_from rel) (add_immunities (no_damage_from rel) r)"
  have ext: "accumulate_types type_chart (pokemon_types @ [t]) no_resistances = Inr ?r'"
    by (simp add: accumulate_types_append r rel)
  have "score_of r \<le> score_of ?r'" by (rule score_one_type [OF ok])
  with r ext show ?thesis
    by (simp add: calculate_defensive_effectiveness_def defensive_sets_def)
qed

lemma quarter_add_resistance:
  "x \<in> quarter_damage r \<Longrightarrow> x \<in> quarter_damage (add_resistance y r)"
  by (simp add: add_resistance_def)

lemma halved_add_resistance: "halved x r \<Longrightarrow> halved x (add_resistance y r)"
  by (auto simp: halved_def add_resistance_def)

lemma halved_add_resistance_self:
  "x \<notin> immunities r \<Longrightarrow> halved x (add_resistance x r)"
  by (simp add: halved_def add_resistance_def)

lemma quarter_add_resistance_self:
  "x \<notin> immunities r \<Longrightarrow> halved x r \<Longrightarrow> x \<in> quarter_damage (add_resistance x r)"
  by (auto simp: halved_def add_resistance_def)

lemma quarter_add_resistances:
  "x \<in> quarter_damage r \<Longrightarrow> x \<in> quarter_damage (add_resistances l r)"
  by (induction l arbitrary: r) (simp_all add: quarter_add_resistance)

lemma halved_add_resistances: "halved x r \<Longrightarrow> halved x (add_resistances l r)"
  by (induction l arbitrary: r) (simp_all add: halved_add_resistance)

lemma halved_add_resistances_member:
  "x \<notin> immunities r \<Longrightarrow> x \<in> name ` set l \<Longrightarrow> halved x (add_resistances l r)"
proof (induction l arbitrary: r)
  case Nil
  then show ?case by simp
next
  case (Cons a l)
  show ?case
  proof (cases "name a = x")
    case True
    with Cons.prems(1) have "halved x (add_resistance (name a) r)"
      by (simp add: halved_add_resistance_self)
    then show ?thesis by (simp add: halved_add_resistances)
  next
    case False
    with Cons.prems have "x \<in> name ` set l" and "x \<notin> immunities (add_resistance (name a) r)"
      by auto
    then show ?thesis by (simp add: Cons.IH)
  qed
qed

lemma quarter_add_resistances_member:
  "x \<notin> immunities r \<Longrightarrow> halved x r \<Longrightarrow> x \<in> name ` set l \<Longrightarrow>
     x \<in> quarter_damage (add_resistances l r)"
proof (induction l arbitrary: r)
  case Nil
  then show ?case by simp
next
  case (Cons a l)
  show ?case
  proof (cases "name a = x")
    case True
    with Cons.prems(1,2) have "x \<in> quarter_damage (add_resistance (name a) r)"
      by (simp add: quarter_add_resistance_self)
    then show ?thesis by (simp add: quarter_add_resistances)
  next
    case False
    with Cons.prems have "x \<in> name ` set l" and "x \<notin> immunities (add_resistance (name a) r)"
      and "halved x (add_resistance (name a) r)"
      by (auto simp: halved_add_resistance)
    then show ?thesis by (simp add: Cons.IH)
  qed
qed

lemma halved_add_immunities [simp]: "halved x (add_immunities l r) = halved x r"
  by (simp add: halved_def add_immunities_sets)

lemma accumulate_types_keeps:
  "x \<notin> immunities r \<Longrightarrow>
   \<forall>t \<in> set ts. \<forall>rel. c t = Some rel \<longrightarrow> x \<notin> name ` set (no_damage_from rel) \<Longrightarrow>
   accumulate_types c ts r = Inr r' \<Longrightarrow>
   x \<notin> immunities r' \<and> (x \<in> quarter_damage r \<longrightarrow> x \<in> quarter_damage r')
     \<and> (halved x r \<longrightarrow> halved x r')"
proof (induction ts arbitrary: r)
  case Nil
  then show ?case by simp
next
  case (Cons t ts)
  from Cons.prems(3) obtain rel where rel: "c t = Some rel"
    by (auto split: option.splits)
  let ?r1 = "add_resistances (half_damage_from rel) (add_immunities (no_damage_from rel) r)"
  from Cons.prems(1,2) rel have n1: "x \<notin> immunities ?r1"
    by (simp add: add_immunities_sets)
  from Cons.prems(2) have rest:
    "\<forall>t \<in> set ts. \<forall>rel. c t = Some rel \<longrightarrow> x \<notin> name ` set (no_damage_from rel)"
    by simp
  from Cons.prems(3) rel have run: "accumulate_types c ts ?r1 = Inr r'" by simp
  have q: "x \<in> quarter_damage r \<Longrightarrow> x \<in> quarter_damage ?r1"
    by (rule quarter_add_resistances) (simp add: add_immunities_sets)
  have h: "halved x r \<Longrightarrow> halved x ?r1"
    by (rule halved_add_resistances) simp
  from Cons.IH [OF n1 rest run] q h show ?case by blast
qed

lemma accumulate_types_halves:
  "x \<notin> immunities r \<Longrightarrow>
   \<forall>t \<in> set ts. \<forall>rel. c t = Some rel \<longrightarrow> x \<notin> name ` set (no_damage_from rel) \<Longrightarrow>
   accumulate_types c ts r = Inr r' \<Longrightarrow>
   t \<in> set ts \<Longrightarrow> c t = Some rel \<Longrightarrow> x \<in> name ` set (half_damage_from rel) \<Longrightarrow>
   halved x r' \<and> (halved x r \<longrightarrow> x \<in> quarter_damage r')"
proof (induction ts arbitrary: r)
  case Nil
  then show ?case by simp
next
  case (Cons u ts)
  from Cons.prems(3) obtain rel_u where rel_u: "c u = Some rel_u"
    by (auto split: option.splits)
  let ?r0 = "add_immunities (no_damage_from rel_u) r"
  let ?r1 = "add_resistances (half_damage_from rel_u) ?r0"
  from Cons.prems(1,2) rel_u have n0: "x \<notin> immunities ?r0"
    by (simp add: add_immunities_sets)
  then have n1: "x \<notin> immunities ?r1" by simp
  from Cons.prems(2) have rest:
    "\<forall>t \<in> set ts. \<forall>rel. c t = Some rel \<longrightarrow> x \<notin> name ` set (no_damage_from rel)"
    by simp
  from Cons.prems(3) rel_u have run: "accumulate_types c ts ?r1 = Inr r'" by simp
  have h: "halved x r \<Longrightarrow> halved x ?r1"
    by (rule halved_add_resistances) simp
  note keeps = accumulate_types_keeps [OF n1 rest run]
  show ?case
  proof (cases "u = t")
    case True
    with rel_u Cons.prems(5) have same: "rel_u = rel" by simp
    from Cons.prems(6) same have mem: "x \<in> name ` set (half_damage_from rel_u)" by simp
    have "halved x ?r1"
      by (rule halved_add_resistances_member [OF n0 mem])
    moreover have "halved x r \<Longrightarrow> x \<in> quarter_damage ?r1"
      by (rule quarter_add_resistances_member [OF n0 _ mem]) simp
    ultimately show ?thesis using keeps by blast
  next
    case False
    with Cons.prems(4) have "t \<in> set ts" by simp
    from Cons.IH [OF n1 rest run this Cons.prems(5,6)] h show ?thesis by blast
  qed
qed

lemma res_ok_disjoint: "res_ok r \<Longrightarrow> x \<in> quarter_damage r \<Longrightarrow> x \<notin> half_damage r"
  by (auto simp: res_ok_def)

text \<open>
  Claim C5: when two positions of the type list both have the attacking type \<open>x\<close> in
  their \<open>half_damage_from\<close> lists and no type of the list is immune to \<open>x\<close>, then
  after processing \<open>x\<close> is in the quarter-damage set, not in the half-damage set and
  not in the immunity set, and the score returned, the sum of the sizes of the three sets,
  is one more than the number of the other attacking types in them: \<open>x\<close> contributes
  exactly 1 to the score.
\<close>

theorem stacking_promotion:
  assumes types: "set pokemon_types \<subseteq> dom type_chart"
    and ij: "i < j" "j < length pokemon_types"
    and first: "type_chart (pokemon_types ! i) = Some rel_i"
               "x \<in> name ` set (half_damage_from rel_i)"
    and second: "type_chart (pokemon_types ! j) = Some rel_j"
               "x \<in> name ` set (half_damage_from rel_j)"
    and not_immune:
      "\<forall>t \<in> set pokemon_types. \<forall>rel. type_chart t = Some rel
          \<longrightarrow> x \<notin> name ` set (no_damage_from rel)"
  shows "\<exists>r. defensive_sets pokemon_types type_chart = Inr r
           \<and> x \<in> quarter_damage r \<and> x \<notin> half_damage r \<and> x \<notin> immunities r
           \<and> calculate_defensive_effectiveness pokemon_types type_chart
               = Inr (card (immunities r) + card (quarter_damage r) + card (half_damage r))
           \<and> calculate_defensive_effectiveness pokemon_types type_chart
               = Inr (1 + (card (immunities r - {x}) + card (quarter_damage r - {x})
                           + card (half_damage r - {x})))"
proof -
  let ?pre = "take (Suc i) pokemon_types" and ?post = "drop (Suc i) pokemon_types"
  have split: "pokemon_types = ?pre @ ?post" by simp
  from types have "set ?pre \<subseteq> dom type_chart"
    by (meson set_take_subset subset_trans)
  then obtain r1 where r1: "accumulate_types type_chart ?pre no_resistances = Inr r1"
    using accumulate_types_total by blast
  from types have "set ?post \<subseteq> dom type_chart"
    by (meson set_drop_subset subset_trans)
  then obtain r where r: "accumulate_types type_chart ?post r1 = Inr r"
    using accumulate_types_total by blast
  have whole: "accumulate_types type_chart pokemon_types no_resistances = Inr r"
    using accumulate_types_append [of type_chart ?pre ?post no_resistances] r1 r by simp
  have ok: "res_ok r" by (rule res_ok_accumulate_types [OF res_ok_no_resistances whole])
  have n0: "x \<notin> immunities no_resistances" by (simp add: no_resistances_def)
  from not_immune have ni_pre:
    "\<forall>t \<in> set ?pre. \<forall>rel. type_chart t = Some rel \<longrightarrow> x \<notin> name ` set (no_damage_from rel)"
    by (meson in_set_takeD)
  from not_immune have ni_post:
    "\<forall>t \<in> set ?post. \<forall>rel. type_chart t = Some rel \<longrightarrow> x \<notin> name ` set (no_damage_from rel)"
    by (meson in_set_dropD)
  from ij have "i < length pokemon_types" by simp
  then have "?pre = take i pokemon_types @ [pokemon_types ! i]"
    by (rule take_Suc_conv_app_nth)
  then have in_pre: "pokemon_types ! i \<in> set ?pre" by simp
  from ij have "?post ! (j - Suc i) = pokemon_types ! j" and "j - Suc i < length ?post"
    by simp_all
  then have in_post: "pokemon_types ! j \<in> set ?post" by (metis nth_mem)
  from accumulate_types_keeps [OF n0 ni_pre r1] have n1: "x \<notin> immunities r1" by simp
  from accumulate_types_halves [OF n0 ni_pre r1 in_pre first] have h1: "halved x r1" by simp
  from accumulate_types_keeps [OF n1 ni_post r] have imm: "x \<notin> immunities r" by simp
  from accumulate_types_halves [OF n1 ni_post r in_post second] h1
  have q: "x \<in> quarter_damage r" by simp
  with ok have h: "x \<notin> half_damage r" by (rule res_ok_disjoint)
  from whole have score: "calculate_defensive_effectiveness pokemon_types type_chart
      = Inr (card (immunities r) + card (quarter_damage r) + card (half_damage r))"
    by (simp add: calculate_defensive_effectiveness_def defensive_sets_def score_of_def)
  from ok have "finite (quarter_damage r)" by (simp add: res_ok_def)
  from this q have cq: "card (quarter_damage r) = Suc (card (quarter_damage r - {x}))"
    by (rule card_Suc_Diff1 [symmetric])
  from imm have ci: "immunities r - {x} = immunities r" by simp
  from h have ch: "half_damage r - {x} = half_damage r" by simp
  have "card (immunities r) + card (quarter_damage r) + card (half_damage r)
      = 1 + (card (immunities r - {x}) + card (quarter_damage r - {x})
             + card (half_damage r - {x}))"
    unfolding ci ch using cq by linarith
  then have once: "calculate_defensive_effectiveness pokemon_types type_chart
      = Inr (1 + (card (immunities r - {x}) + card (quarter_damage r - {x})
                  + card (half_damage r - {x})))"
    by (rule subst [where P = "\<lambda>n. calculate_defensive_effectiveness pokemon_types type_chart = Inr n"])
       (rule score)
  from whole have sets: "defensive_sets pokemon_types type_chart = Inr r"
    by (simp only: defensive_sets_def)
  show ?thesis
  proof (intro exI conjI)
    show "defensive_sets pokemon_types type_chart = Inr r" by (rule sets)
    show "x \<in> quarter_damage r" by (rule q)
    show "x \<notin> half_damage r" by (rule h)
    show "x \<notin> immunities r" by (rule imm)
    show "calculate_defensive_effectiveness pokemon_types type_chart
      = Inr (card (immunities r) + card (quarter_damage r) + card (half_damage r))"
      by (rule score)
    show "calculate_defensive_effectiveness pokemon_types type_chart
      = Inr (1 + (card (immunities r - {x}) + card (quarter_damage r - {x})
                  + card (half_damage r - {x})))"
      by (rule once)
  qed
qed

text \<open>Claim C10 at the list Steel extended by Ghost.\<close>

theorem score_monotone_under_extension_witness:
  "set [''steel''] \<subseteq> dom steel_ghost_chart \<and> ''ghost'' \<in> dom steel_ghost_chart
   \<and> (\<exists>a b. calculate_defensive_effectiveness [''steel''] steel_ghost_chart = Inr a
           \<and> calculate_defensive_effectiveness ([''steel''] @ [''ghost'']) steel_ghost_chart = Inr b
           \<and> a \<le> b)"
proof -
  have types: "set [''steel''] \<subseteq> dom steel_ghost_chart" and t: "''ghost'' \<in> dom steel_ghost_chart"
    by (simp_all add: steel_ghost_chart_def)
  from score_monotone_under_extension [OF types t] types t show ?thesis by blast
qed

text \<open>
  Claim C5 at the types Steel and Fairy of a chart in which both halve Dragon: the score
  is 4, for Poison (immune), Dragon (quartered), Normal and Bug (halved).
\<close>

theorem stacking_promotion_witness:
  "calculate_defensive_effectiveness [''steel'', ''fairy''] stacking_chart = Inr 4
   \<and> (\<exists>r. defensive_sets [''steel'', ''fairy''] stacking_chart = Inr r
       \<and> ''dragon'' \<in> quarter_damage r \<and> ''dragon'' \<notin> half_damage r
       \<and> ''dragon'' \<notin> immunities r
       \<and> calculate_defensive_effectiveness [''steel'', ''fairy''] stacking_chart
           = Inr (card (immunities r) + card (quarter_damage r) + card (half_damage r))
       \<and> calculate_defensive_effectiveness [''steel'', ''fairy''] stacking_chart
           = Inr (1 + (card (immunities r - {''dragon''}) + card (quarter_damage r - {''dragon''})
                       + card (half_damage r - {''dragon''}))))"
proof
  show "calculate_defensive_effectiveness [''steel'', ''fairy''] stacking_chart = Inr 4"
    by (simp add: calculate_defensive_effectiveness_def defensive_sets_def stacking_chart_def
        no_resistances_def ref_def add_resistance_def score_of_def)
  show "\<exists>r. defensive_sets [''steel'', ''fairy''] stacking_chart = Inr r
       \<and> ''dragon'' \<in> quarter_damage r \<and> ''dragon'' \<notin> half_damage r
       \<and> ''dragon'' \<notin> immunities r
       \<and> calculate_defensive_effectiveness [''steel'', ''fairy''] stacking_chart
           = Inr (card (immunities r) + card (quarter_damage r) + card (half_damage r))
       \<and> calculate_defensive_effectiveness [''steel'', ''fairy''] stacking_chart
           = Inr (1 + (card (immunities r - {''dragon''}) + card (quarter_damage r - {''dragon''})
                       + card (half_damage r - {''dragon''})))"
  proof (rule stacking_promotion [where i = 0 and j = 1])
    show "set [''steel'', ''fairy''] \<subseteq> dom stacking_chart"
      by (simp add: stacking_chart_def)
    show "(0::nat) < 1" by simp
    show "1 < length [''steel'', ''fairy'']" by simp
    show "stacking_chart ([''steel'', ''fairy''] ! 0)
        = Some \<lparr>no_damage_from = [ref ''poison''],
                half_damage_from = [ref ''normal'', ref ''dragon'']\<rparr>"
      by (simp add: stacking_chart_def)
    show "''dragon'' \<in> name ` set (half_damage_from \<lparr>no_damage_from = [ref ''poison''],
                half_damage_from = [ref ''normal'', ref ''dragon'']\<rparr>)"
      by (simp add: ref_def)
    show "stacking_chart ([''steel'', ''fairy''] ! 1)
        = Some \<lparr>no_damage_from = [], half_damage_from = [ref ''dragon'', ref ''bug'']\<rparr>"
      by (simp add: stacking_chart_def)
    show "''dragon'' \<in> name ` set (half_damage_from
        \<lparr>no_damage_from = [], half_damage_from = [ref ''dragon'', ref ''bug'']\<rparr>)"
      by (simp add: ref_def)
    show "\<forall>t \<in> set [''steel'', ''fairy'']. \<forall>rel. stacking_chart t = Some rel
            \<longrightarrow> ''dragon'' \<notin> name ` set (no_damage_from rel)"
      by (auto simp: stacking_chart_def ref_def)
  qed
qed

text \<open>
  Claim C1: the score is meant to count every resisted attacking type once. For the types
  Steel and Ghost (in that order) the score is 13 although only 12 distinct attacking types
  occur in the four relation lists: Normal is put into the half-damage set while Steel is
  processed and into the immunity set while Ghost is processed, and stays in both.
\<close>

theorem steel_ghost_counts_normal_twice:
  "calculate_defensive_effectiveness [''steel'', ''ghost''] steel_ghost_chart = Inr 13
   \<and> card (resisted_types [''steel'', ''ghost''] steel_ghost_chart) = 12
   \<and> (\<exists>r. defensive_sets [''steel'', ''ghost''] steel_ghost_chart = Inr r
          \<and> ''normal'' \<in> immunities r \<and> ''normal'' \<in> half_damage r)"
proof -
  have "calculate_defensive_effectiveness [''steel'', ''ghost''] steel_ghost_chart = Inr 13"
    by (simp add: calculate_defensive_effectiveness_def defensive_sets_def steel_ghost_chart_def
        no_resistances_def ref_def add_resistance_def score_of_def)
  moreover have "card (resisted_types [''steel'', ''ghost''] steel_ghost_chart) = 12"
    by (simp add: resisted_types_def steel_ghost_chart_def ref_def card_insert_if)
  moreover have "\<exists>r. defensive_sets [''steel'', ''ghost''] steel_ghost_chart = Inr r
          \<and> ''normal'' \<in> immunities r \<and> ''normal'' \<in> half_damage r"
    by (simp add: defensive_sets_def steel_ghost_chart_def
        no_resistances_def ref_def add_resistance_def)
  ultimately show ?thesis by blast
qed

section \<open>Properties of the name functions\<close>

lemma format_mega_x: "format_pokemon_name ''charizard-mega-x'' = ''Mega Charizard X''"
  by (simp add: format_pokemon_name_def exceptions_def str_lower_def lower_char_def
      ascii_lowercase_def ascii_uppercase_def str_title_def islower_def isupper_def
      upper_char_def prefix_forms_def str_upper_def)

lemma format_alolan: "format_pokemon_name ''raichu-alolan'' = ''Alolan Raichu''"
  by (simp add: format_pokemon_name_def exceptions_def str_lower_def lower_char_def
      ascii_lowercase_def ascii_uppercase_def str_title_def islower_def isupper_def
      upper_char_def prefix_forms_def str_upper_def)

lemma format_attack: "format_pokemon_name ''deoxys-attack'' = ''Deoxys (Attack)''"
  by (simp add: format_pokemon_name_def exceptions_def str_lower_def lower_char_def
      ascii_lowercase_def ascii_uppercase_def str_title_def islower_def isupper_def
      upper_char_def prefix_forms_def str_upper_def)

lemma format_porygon_z: "format_pokemon_name ''porygon-z'' = ''Porygon-Z''"
  by (simp add: format_pokemon_name_def exceptions_def str_lower_def lower_char_def
      ascii_lowercase_def ascii_uppercase_def str_title_def islower_def isupper_def
      upper_char_def prefix_forms_def str_upper_def)

lemma porygon_z_is_exception: "str_lower ''porygon-z'' \<in> set exceptions"
  by (simp add: exceptions_def str_lower_def lower_char_def ascii_lowercase_def ascii_uppercase_def)

text \<open>
  Claim C8: the four documented display names; the last one is produced by the exception
  list, which title-cases the name as it stands.
\<close>

theorem format_pokemon_name_examples:
  "format_pokemon_name ''charizard-mega-x'' = ''Mega Charizard X''
   \<and> format_pokemon_name ''raichu-alolan'' = ''Alolan Raichu''
   \<and> format_pokemon_name ''deoxys-attack'' = ''Deoxys (Attack)''
   \<and> format_pokemon_name ''porygon-z'' = ''Porygon-Z''
   \<and> str_lower ''porygon-z'' \<in> set exceptions
   \<and> str_title ''porygon-z'' = ''Porygon-Z''"
  using format_mega_x format_alolan format_attack format_porygon_z porygon_z_is_exception
  by (simp add: format_pokemon_name_def)

section \<open>Properties of the remote data gateway\<close>

























lemma species_attempts_all_failing:
  "\<forall>i < length attempts. \<exists>r. species_reply net (requests s + i) url = Response r
       \<and> status_code r \<notin> {200, 404, 429}
   \<Longrightarrow> fst (species_attempts net pokemon_id max_retries 1 url attempts s) = Inr default_data
       \<and> species_cache (snd (species_attempts net pokemon_id max_retries 1 url attempts s))
           = (species_cache s)(pokemon_id \<mapsto> default_data)
       \<and> requests (snd (species_attempts net pokemon_id max_retries 1 url attempts s))
           = requests s + length attempts"
proof (induction attempts arbitrary: s)
  case Nil
  then show ?case by simp
next
  case (Cons a attempts)
  from Cons.prems [rule_format, of 0] obtain r where
    first: "species_reply net (requests s) url = Response r" "status_code r \<notin> {200, 404, 429}"
    by auto
  let ?s1 = "s\<lparr>requests := Suc (requests s), slept := slept s @ [1]\<rparr>"
  from first have "species_attempt net pokemon_id max_retries 1 a url s = (Continue url, ?s1)"
    by (simp add: species_attempt_def on_other_status_def time_sleep_def)
  then have step: "species_attempts net pokemon_id max_retries 1 url (a # attempts) s
      = species_attempts net pokemon_id max_retries 1 url attempts ?s1"
    by simp
  have "\<forall>i < length attempts. \<exists>r. species_reply net (requests ?s1 + i) url = Response r
       \<and> status_code r \<notin> {200, 404, 429}"
  proof (intro allI impI)
    fix i assume "i < length attempts"
    then have "Suc i < length (a # attempts)" by simp
    from Cons.prems [rule_format, OF this]
    show "\<exists>r. species_reply net (requests ?s1 + i) url = Response r
       \<and> status_code r \<notin> {200, 404, 429}"
      by simp
  qed
  from Cons.IH [OF this] show ?case unfolding step by simp
qed

lemma default_data_flags: "legendary_or_mythical default_data = Inr False"
  by (simp add: legendary_or_mythical_def default_data_def)

lemma not_legendary_iff:
  "(fst (is_legendary_or_mythical net pokemon_name pokemon_id s) = Some False) =
      (\<exists>own t1. get_species_info net pokemon_id 3 1 s = (Inr own, t1)
          \<and> legendary_or_mythical own = Inr False
          \<and> (is_special_form pokemon_name \<longrightarrow>
               (\<exists>base_data t2.
                  get_pokemon_details net (pokemon_url (get_base_form_name pokemon_name)) 3 1 t1
                    = (Inr base_data, t2)
                  \<and> (\<not> truthy base_data
                     \<or> (\<exists>base_id base_species t3.
                           getitem base_data ''id'' = Inr (JInt base_id)
                           \<and> get_species_info net base_id 3 1 t2 = (Inr base_species, t3)
                           \<and> legendary_or_mythical base_species = Inr False)))))"
proof (cases "get_species_info net pokemon_id 3 1 s")
  case (Pair res t1)
  show ?thesis
  proof (cases res)
    case (Inl e)
    with Pair show ?thesis by (simp add: is_legendary_or_mythical_def)
  next
    case (Inr own)
    note own = Pair [unfolded Inr]
    show ?thesis
    proof (cases "legendary_or_mythical own")
      case (Inl e)
      with own show ?thesis by (simp add: is_legendary_or_mythical_def)
    next
      case flags: (Inr flag)
      show ?thesis
      proof (cases flag)
        case True
        with own flags show ?thesis by (simp add: is_legendary_or_mythical_def)
      next
        case False
        with flags have flags: "legendary_or_mythical own = Inr False" by simp
        show ?thesis
        proof (cases "is_special_form pokemon_name")
          case False
          with own flags show ?thesis by (simp add: is_legendary_or_mythical_def)
        next
          case True
          obtain bres t2 where base:
            "get_pokemon_details net (pokemon_url (get_base_form_name pokemon_name)) 3 1 t1
               = (bres, t2)"
            by (cases "get_pokemon_details net (pokemon_url (get_base_form_name pokemon_name)) 3 1 t1")
          show ?thesis
          proof (cases bres)
            case (Inl e)
            with own flags True base show ?thesis by (simp add: is_legendary_or_mythical_def)
          next
            case (Inr base_data)
            note base = base [unfolded Inr]
            show ?thesis
            proof (cases "truthy base_data")
              case False
              with own flags True base show ?thesis by (simp add: is_legendary_or_mythical_def)
            next
              case truthy: True
              show ?thesis
              proof (cases "getitem base_data ''id''")
                case (Inl e)
                with own flags True base truthy show ?thesis
                  by (simp add: is_legendary_or_mythical_def)
              next
                case (Inr i)
                show ?thesis
                proof (cases "\<exists>base_id. i = JInt base_id")
                  case False
                  with own flags True base truthy Inr show ?thesis
                    by (cases i) (simp_all add: is_legendary_or_mythical_def)
                next
                  case True
                  then obtain base_id where i: "i = JInt base_id" by blast
                  note item = Inr [unfolded i]
                  obtain sres t3 where sp: "get_species_info net base_id 3 1 t2 = (sres, t3)"
                    by (cases "get_species_info net base_id 3 1 t2")
                  show ?thesis
                  proof (cases sres)
                    case (Inl e)
                    with own flags \<open>is_special_form pokemon_name\<close> base truthy item sp
                    show ?thesis by (simp add: is_legendary_or_mythical_def)
                  next
                    case (Inr base_species)
                    with own flags \<open>is_special_form pokemon_name\<close> base truthy item sp
                    show ?thesis
                      by (cases "legendary_or_mythical base_species")
                         (simp_all add: is_legendary_or_mythical_def)
                  qed
                qed
              qed
            qed
          qed
        qed
      qed
    qed
  qed
qed

text \<open>
  Claim C7, amended. \<open>is_legendary_or_mythical\<close> returns true whenever something raises
  on its way: the lookup of the entity's species record, the reading of a flag of that
  record, the fetch of the base form's detail record, the reading of its \<open>id\<close>, the
  lookup of the base form's species record or the reading of a flag of that record. It
  returns false exactly when the species lookup for the entity returned a record with
  neither flag set and, for a special form, either the fetch of the base form returned a
  false value such as \<open>None\<close> (the base form's species record is then not consulted) or
  the species lookup for the base form returned a record with neither flag set. The record
  a species lookup returns need not have been received: when all three replies have a
  status other than 200, 404 and 429 the lookup does not raise but returns the default
  record without flags, so the function returns false for an entity that is no special
  form although no species record was received.
\<close>

theorem is_legendary_or_mythical_fail_closed:
  "(get_species_info net pokemon_id 3 1 s = (Inl e, s1) \<longrightarrow>
      fst (is_legendary_or_mythical net pokemon_name pokemon_id s) = Some True)
   \<and> (get_species_info net pokemon_id 3 1 s = (Inr own, s1)
        \<and> legendary_or_mythical own = Inl e \<longrightarrow>
      fst (is_legendary_or_mythical net pokemon_name pokemon_id s) = Some True)
   \<and> (get_species_info net pokemon_id 3 1 s = (Inr own, s1)
        \<and> legendary_or_mythical own = Inr False
        \<and> is_special_form pokemon_name
        \<and> get_pokemon_details net (pokemon_url (get_base_form_name pokemon_name)) 3 1 s1
            = (Inl e, s2) \<longrightarrow>
      fst (is_legendary_or_mythical net pokemon_name pokemon_id s) = Some True)
   \<and> (get_species_info net pokemon_id 3 1 s = (Inr own, s1)
        \<and> legendary_or_mythical own = Inr False
        \<and> is_special_form pokemon_name
        \<and> get_pokemon_details net (pokemon_url (get_base_form_name pokemon_name)) 3 1 s1
            = (Inr base_data, s2)
        \<and> truthy base_data \<and> getitem base_data ''id'' = Inl e \<longrightarrow>
      fst (is_legendary_or_mythical net pokemon_name pokemon_id s) = Some True)
   \<and> (get_species_info net pokemon_id 3 1 s = (Inr own, s1)
        \<and> legendary_or_mythical own = Inr False
        \<and> is_special_form pokemon_name
        \<and> get_pokemon_details net (pokemon_url (get_base_form_name pokemon_name)) 3 1 s1
            = (Inr base_data, s2)
        \<and> truthy base_data \<and> getitem base_data ''id'' = Inr (JInt base_id)
        \<and> get_species_info net base_id 3 1 s2 = (Inl e, s3) \<longrightarrow>
      fst (is_legendary_or_mythical net pokemon_name pokemon_id s) = Some True)
   \<and> (get_species_info net pokemon_id 3 1 s = (Inr own, s1)
        \<and> legendary_or_mythical own = Inr False
        \<and> is_special_form pokemon_name
        \<and> get_pokemon_details net (pokemon_url (get_base_form_name pokemon_name)) 3 1 s1
            = (Inr base_data, s2)
        \<and> truthy base_data \<and> getitem base_data ''id'' = Inr (JInt base_id)
        \<and> get_species_info net base_id 3 1 s2 = (Inr base_species, s3)
        \<and> legendary_or_mythical base_species = Inl e \<longrightarrow>
      fst (is_legendary_or_mythical net pokemon_name pokemon_id s) = Some True)
   \<and> ((fst (is_legendary_or_mythical net pokemon_name pokemon_id s) = Some False) =
      (\<exists>own t1. get_species_info net pokemon_id 3 1 s = (Inr own, t1)
          \<and> legendary_or_mythical own = Inr False
          \<and> (is_special_form pokemon_name \<longrightarrow>
               (\<exists>base_data t2.
                  get_pokemon_details net (pokemon_url (get_base_form_name pokemon_name)) 3 1 t1
                    = (Inr base_data, t2)
                  \<and> (\<not> truthy base_data
                     \<or> (\<exists>base_id base_species t3.
                           getitem base_data ''id'' = Inr (JInt base_id)
                           \<and> get_species_info net base_id 3 1 t2 = (Inr base_species, t3)
                           \<and> legendary_or_mythical base_species = Inr False))))))
   \<and> (species_cache s pokemon_id = None
        \<and> (\<forall>i < 3. \<exists>r. species_reply net (requests s + i) (species_url (str_int pokemon_id))
                            = Response r
                        \<and> status_code r \<notin> {200, 404, 429})
        \<and> \<not> is_special_form pokemon_name \<longrightarrow>
      fst (is_legendary_or_mythical net pokemon_name pokemon_id s) = Some False
      \<and> requests (snd (is_legendary_or_mythical net pokemon_name pokemon_id s)) = requests s + 3)"
proof (intro conjI)
  show "get_species_info net pokemon_id 3 1 s = (Inl e, s1) \<longrightarrow>
      fst (is_legendary_or_mythical net pokemon_name pokemon_id s) = Some True"
    by (simp add: is_legendary_or_mythical_def)
  show "get_species_info net pokemon_id 3 1 s = (Inr own, s1)
        \<and> legendary_or_mythical own = Inl e \<longrightarrow>
      fst (is_legendary_or_mythical net pokemon_name pokemon_id s) = Some True"
    by (simp add: is_legendary_or_mythical_def)
  show "get_species_info net pokemon_id 3 1 s = (Inr own, s1)
        \<and> legendary_or_mythical own = Inr False
        \<and> is_special_form pokemon_name
        \<and> get_pokemon_details net (pokemon_url (get_base_form_name pokemon_name)) 3 1 s1
            = (Inl e, s2) \<longrightarrow>
      fst (is_legendary_or_mythical net pokemon_name pokemon_id s) = Some True"
    by (simp add: is_legendary_or_mythical_def)
  show "get_species_info net pokemon_id 3 1 s = (Inr own, s1)
        \<and> legendary_or_mythical own = Inr False
        \<and> is_special_form pokemon_name
        \<and> get_pokemon_details net (pokemon_url (get_base_form_name pokemon_name)) 3 1 s1
            = (Inr base_data, s2)
        \<and> truthy base_data \<and> getitem base_data ''id'' = Inl e \<longrightarrow>
      fst (is_legendary_or_mythical net pokemon_name pokemon_id s) = Some True"
    by (simp add: is_legendary_or_mythical_def)
  show "get_species_info net pokemon_id 3 1 s = (Inr own, s1)
        \<and> legendary_or_mythical own = Inr False
        \<and> is_special_form pokemon_name
        \<and> get_pokemon_details net (pokemon_url (get_base_form_name pokemon_name)) 3 1 s1
            = (Inr base_data, s2)
        \<and> truthy base_data \<and> getitem base_data ''id'' = Inr (JInt base_id)
        \<and> get_species_info net base_id 3 1 s2 = (Inl e, s3) \<longrightarrow>
      fst (is_legendary_or_mythical net pokemon_name pokemon_id s) = Some True"
    by (simp add: is_legendary_or_mythical_def)
  show "get_species_info net pokemon_id 3 1 s = (Inr own, s1)
        \<and> legendary_or_mythical own = Inr False
        \<and> is_special_form pokemon_name
        \<and> get_pokemon_details net (pokemon_url (get_base_form_name pokemon_name)) 3 1 s1
            = (Inr base_data, s2)
        \<and> truthy base_data \<and> getitem base_data ''id'' = Inr (JInt base_id)
        \<and> get_species_info net base_id 3 1 s2 = (Inr base_species, s3)
        \<and> legendary_or_mythical base_species = Inl e \<longrightarrow>
      fst (is_legendary_or_mythical net pokemon_name pokemon_id s) = Some True"
    by (simp add: is_legendary_or_mythical_def)
  show "(fst (is_legendary_or_mythical net pokemon_name pokemon_id s) = Some False) =
      (\<exists>own t1. get_species_info net pokemon_id 3 1 s = (Inr own, t1)
          \<and> legendary_or_mythical own = Inr False
          \<and> (is_special_form pokemon_name \<longrightarrow>
               (\<exists>base_data t2.
                  get_pokemon_details net (pokemon_url (get_base_form_name pokemon_name)) 3 1 t1
                    = (Inr base_data, t2)
                  \<and> (\<not> truthy base_data
                     \<or> (\<exists>base_id base_species t3.
                           getitem base_data ''id'' = Inr (JInt base_id)
                           \<and> get_species_info net base_id 3 1 t2 = (Inr base_species, t3)
                           \<and> legendary_or_mythical base_species = Inr False)))))"
    by (rule not_legendary_iff)
  show "species_cache s pokemon_id = None
        \<and> (\<forall>i < 3. \<exists>r. species_reply net (requests s + i) (species_url (str_int pokemon_id))
                            = Response r
                        \<and> status_code r \<notin> {200, 404, 429})
        \<and> \<not> is_special_form pokemon_name \<longrightarrow>
      fst (is_legendary_or_mythical net pokemon_name pokemon_id s) = Some False
      \<and> requests (snd (is_legendary_or_mythical net pokemon_name pokemon_id s)) = requests s + 3"
  proof (intro impI, elim conjE)
    assume uncached: "species_cache s pokemon_id = None"
      and plain: "\<not> is_special_form pokemon_name"
      and failing: "\<forall>i < 3. \<exists>r. species_reply net (requests s + i)
          (species_url (str_int pokemon_id)) = Response r \<and> status_code r \<notin> {200, 404, 429}"
    have three: "[0..3 - 1] = [0, 1, 2::int]"
      by (simp add: upto_rec1)
    from failing have "\<forall>i < length [0, 1, 2::int]. \<exists>r. species_reply net (requests s + i)
          (species_url (str_int pokemon_id)) = Response r \<and> status_code r \<notin> {200, 404, 429}"
      by simp
    from species_attempts_all_failing [OF this, of pokemon_id 3] uncached three
    have "fst (get_species_info net pokemon_id 3 1 s) = Inr default_data"
      and "requests (snd (get_species_info net pokemon_id 3 1 s)) = requests s + 3"
      by (simp_all add: get_species_info_def)
    then obtain t1 where "get_species_info net pokemon_id 3 1 s = (Inr default_data, t1)"
      and "requests t1 = requests s + 3"
      by (cases "get_species_info net pokemon_id 3 1 s") simp
    with plain show "fst (is_legendary_or_mythical net pokemon_name pokemon_id s) = Some False
      \<and> requests (snd (is_legendary_or_mythical net pokemon_name pokemon_id s)) = requests s + 3"
      by (simp add: is_legendary_or_mythical_def default_data_flags)
  qed
qed

text \<open>The definitions that evaluate a fetch at a concrete service.\<close>

lemmas species_eval = get_species_info_def species_attempt_def fresh_state_def json_reply_def
  status_reply_def on_request_failure_def on_other_status_def time_sleep_def upto_rec1

lemmas details_eval = get_pokemon_details_def details_attempt_def fresh_state_def json_reply_def
  status_reply_def on_request_failure_def on_other_status_def time_sleep_def upto_rec1

lemma rock_star_is_special: "is_special_form ''pikachu-rock-star''"
  by (simp add: is_special_form_def exceptions_def)

lemma rock_star_base: "get_base_form_name ''pikachu-rock-star'' = ''pikachu''"
  by (simp add: get_base_form_name_def form_indicators_def str_lower_def lower_char_def
      ascii_lowercase_def ascii_uppercase_def)

lemma raichu_not_special: "\<not> is_special_form ''raichu''"
  by (simp add: is_special_form_def)

lemma species_json_flags: "legendary_or_mythical (species_json i False False) = Inr False"
  by (simp add: legendary_or_mythical_def species_json_def)

lemma pikachu_json_truthy: "truthy (json_of_pokemon pikachu)"
  by (simp add: json_of_pokemon_def)

lemma pikachu_json_id: "getitem (json_of_pokemon pikachu) ''id'' = Inr (JInt 25)"
  by (simp add: json_of_pokemon_def pikachu_def)

text \<open>
  Claim C7, amended, at one service for each way to raise (true), at services where the
  records carry no flag, for an entity that is no special form, for a special form whose
  base form cannot be fetched and for one whose base form is served (false), and at a
  service that answers every request with a server error (false).
\<close>

theorem is_legendary_or_mythical_fail_closed_witness:
  "fst (is_legendary_or_mythical unreachable ''raichu'' 26 fresh_state) = Some True
   \<and> fst (is_legendary_or_mythical flagless_species ''pikachu'' 25 fresh_state) = Some True
   \<and> fst (is_legendary_or_mythical details_unreachable ''pikachu-rock-star'' 10080 fresh_state)
       = Some True
   \<and> fst (is_legendary_or_mythical base_without_id ''pikachu-rock-star'' 10080 fresh_state)
       = Some True
   \<and> fst (is_legendary_or_mythical species_once ''pikachu-rock-star'' 10080 fresh_state)
       = Some True
   \<and> fst (is_legendary_or_mythical base_species_flagless ''pikachu-rock-star'' 10080 fresh_state)
       = Some True
   \<and> fst (is_legendary_or_mythical serves_raichu ''raichu'' 26 fresh_state) = Some False
   \<and> fst (is_legendary_or_mythical details_down ''pikachu-rock-star'' 10080 fresh_state)
       = Some False
   \<and> fst (is_legendary_or_mythical serves_pikachu ''pikachu-rock-star'' 10080 fresh_state)
       = Some False
   \<and> fst (is_legendary_or_mythical always_500 ''mewtwo'' 150 fresh_state) = Some False"
proof -
  note raises_own = is_legendary_or_mythical_fail_closed [THEN conjunct1, THEN mp]
  note raises_own_flag = is_legendary_or_mythical_fail_closed
    [THEN conjunct2, THEN conjunct1, THEN mp]
  note raises_base = is_legendary_or_mythical_fail_closed
    [THEN conjunct2, THEN conjunct2, THEN conjunct1, THEN mp]
  note raises_base_id = is_legendary_or_mythical_fail_closed
    [THEN conjunct2, THEN conjunct2, THEN conjunct2, THEN conjunct1, THEN mp]
  note raises_base_species = is_legendary_or_mythical_fail_closed
    [THEN conjunct2, THEN conjunct2, THEN conjunct2, THEN conjunct2, THEN conjunct1, THEN mp]
  note raises_base_flag = is_legendary_or_mythical_fail_closed
    [THEN conjunct2, THEN conjunct2, THEN conjunct2, THEN conjunct2, THEN conjunct2,
     THEN conjunct1, THEN mp]
  note false_if = is_legendary_or_mythical_fail_closed
    [THEN conjunct2, THEN conjunct2, THEN conjunct2, THEN conjunct2, THEN conjunct2,
     THEN conjunct2, THEN conjunct1, THEN iffD2]
  note false_by_default = is_legendary_or_mythical_fail_closed
    [THEN conjunct2, THEN conjunct2, THEN conjunct2, THEN conjunct2, THEN conjunct2,
     THEN conjunct2, THEN conjunct2, THEN mp, THEN conjunct1]

  have own1: "get_species_info unreachable 26 3 1 fresh_state =
      (Inl FetchFailed, snd (get_species_info unreachable 26 3 1 fresh_state))"
    by (simp add: species_eval unreachable_def)
  have c1: "fst (is_legendary_or_mythical unreachable ''raichu'' 26 fresh_state) = Some True"
    by (rule raises_own) (rule own1)

  have own2: "get_species_info flagless_species 25 3 1 fresh_state =
      (Inr (JDict [(''id'', JInt 25)]), snd (get_species_info flagless_species 25 3 1 fresh_state))"
    by (simp add: species_eval flagless_species_def)
  have flag2: "legendary_or_mythical (JDict [(''id'', JInt 25)]) = Inl KeyError"
    by (simp add: legendary_or_mythical_def)
  have c2: "fst (is_legendary_or_mythical flagless_species ''pikachu'' 25 fresh_state) = Some True"
    by (rule raises_own_flag) (intro conjI, rule own2, rule flag2)

  let ?s3 = "snd (get_species_info details_unreachable 10080 3 1 fresh_state)"
  have own3: "get_species_info details_unreachable 10080 3 1 fresh_state =
      (Inr (species_json 25 False False), ?s3)"
    by (simp add: species_eval details_unreachable_def)
  have base3: "get_pokemon_details details_unreachable
        (pokemon_url (get_base_form_name ''pikachu-rock-star'')) 3 1 ?s3 =
      (Inl FetchFailed,
       snd (get_pokemon_details details_unreachable
              (pokemon_url (get_base_form_name ''pikachu-rock-star'')) 3 1 ?s3))"
    by (simp add: species_eval details_eval details_unreachable_def)
  have c3: "fst (is_legendary_or_mythical details_unreachable ''pikachu-rock-star'' 10080
      fresh_state) = Some True"
    by (rule raises_base)
       (intro conjI, rule own3, rule species_json_flags, rule rock_star_is_special, rule base3)

  let ?s4 = "snd (get_species_info base_without_id 10080 3 1 fresh_state)"
  have own4: "get_species_info base_without_id 10080 3 1 fresh_state =
      (Inr (species_json 25 False False), ?s4)"
    by (simp add: species_eval base_without_id_def)
  have base4: "get_pokemon_details base_without_id
        (pokemon_url (get_base_form_name ''pikachu-rock-star'')) 3 1 ?s4 =
      (Inr (JDict [(''name'', JStr ''pikachu'')]),
       snd (get_pokemon_details base_without_id
              (pokemon_url (get_base_form_name ''pikachu-rock-star'')) 3 1 ?s4))"
    by (simp add: species_eval details_eval base_without_id_def)
  have truthy4: "truthy (JDict [(''name'', JStr ''pikachu'')])"
    by simp
  have id4: "getitem (JDict [(''name'', JStr ''pikachu'')]) ''id'' = Inl KeyError"
    by simp
  have c4: "fst (is_legendary_or_mythical base_without_id ''pikachu-rock-star'' 10080
      fresh_state) = Some True"
    by (rule raises_base_id)
       (intro conjI, rule own4, rule species_json_flags, rule rock_star_is_special, rule base4,
        rule truthy4, rule id4)

  let ?s5 = "snd (get_species_info species_once 10080 3 1 fresh_state)"
  let ?t5 = "snd (get_pokemon_details species_once
              (pokemon_url (get_base_form_name ''pikachu-rock-star'')) 3 1 ?s5)"
  have own5: "get_species_info species_once 10080 3 1 fresh_state =
      (Inr (species_json 25 False False), ?s5)"
    by (simp add: species_eval species_once_def)
  have base5: "get_pokemon_details species_once
        (pokemon_url (get_base_form_name ''pikachu-rock-star'')) 3 1 ?s5 =
      (Inr (json_of_pokemon pikachu), ?t5)"
    by (simp add: species_eval details_eval species_once_def)
  have species5: "get_species_info species_once 25 3 1 ?t5 =
      (Inl FetchFailed, snd (get_species_info species_once 25 3 1 ?t5))"
    by (simp add: species_eval details_eval species_once_def)
  have c5: "fst (is_legendary_or_mythical species_once ''pikachu-rock-star'' 10080
      fresh_state) = Some True"
    by (rule raises_base_species)
       (intro conjI, rule own5, rule species_json_flags, rule rock_star_is_special, rule base5,
        rule pikachu_json_truthy, rule pikachu_json_id, rule species5)

  let ?s6 = "snd (get_species_info base_species_flagless 10080 3 1 fresh_state)"
  let ?t6 = "snd (get_pokemon_details base_species_flagless
              (pokemon_url (get_base_form_name ''pikachu-rock-star'')) 3 1 ?s6)"
  have own6: "get_species_info base_species_flagless 10080 3 1 fresh_state =
      (Inr (species_json 25 False False), ?s6)"
    by (simp add: species_eval base_species_flagless_def)
  have base6: "get_pokemon_details base_species_flagless
        (pokemon_url (get_base_form_name ''pikachu-rock-star'')) 3 1 ?s6 =
      (Inr (json_of_pokemon pikachu), ?t6)"
    by (simp add: species_eval details_eval base_species_flagless_def)
  have species6: "get_species_info base_species_flagless 25 3 1 ?t6 =
      (Inr (JDict [(''id'', JInt 25)]), snd (get_species_info base_species_flagless 25 3 1 ?t6))"
    by (simp add: species_eval details_eval base_species_flagless_def)
  have c6: "fst (is_legendary_or_mythical base_species_flagless ''pikachu-rock-star'' 10080
      fresh_state) = Some True"
    by (rule raises_base_flag)
       (intro conjI, rule own6, rule species_json_flags, rule rock_star_is_special, rule base6,
        rule pikachu_json_truthy, rule pikachu_json_id, rule species6, rule flag2)

  have own7: "get_species_info serves_raichu 26 3 1 fresh_state =
      (Inr (species_json 26 False False), snd (get_species_info serves_raichu 26 3 1 fresh_state))"
    by (simp add: species_eval serves_raichu_def plain_species_def)
  have c7: "fst (is_legendary_or_mythical serves_raichu ''raichu'' 26 fresh_state) = Some False"
    apply (rule false_if)
    apply (intro exI conjI impI)
      apply (rule own7)
     apply (rule species_json_flags)
    apply (simp_all add: raichu_not_special)
    done

  let ?s8 = "snd (get_species_info details_down 10080 3 1 fresh_state)"
  have own8: "get_species_info details_down 10080 3 1 fresh_state =
      (Inr (species_json 26 False False), ?s8)"
    by (simp add: species_eval details_down_def plain_species_def)
  have base8: "get_pokemon_details details_down
        (pokemon_url (get_base_form_name ''pikachu-rock-star'')) 3 1 ?s8 =
      (Inr JNull,
       snd (get_pokemon_details details_down
              (pokemon_url (get_base_form_name ''pikachu-rock-star'')) 3 1 ?s8))"
    by (simp add: species_eval details_eval details_down_def plain_species_def)
  have c8: "fst (is_legendary_or_mythical details_down ''pikachu-rock-star'' 10080 fresh_state)
      = Some False"
    apply (rule false_if)
    apply (intro exI conjI impI)
       apply (rule own8)
      apply (rule species_json_flags)
     apply (rule base8)
    apply (rule disjI1)
    apply simp
    done

  let ?s9 = "snd (get_species_info serves_pikachu 10080 3 1 fresh_state)"
  let ?t9 = "snd (get_pokemon_details serves_pikachu
              (pokemon_url (get_base_form_name ''pikachu-rock-star'')) 3 1 ?s9)"
  have own9: "get_species_info serves_pikachu 10080 3 1 fresh_state =
      (Inr (species_json 25 False False), ?s9)"
    by (simp add: species_eval serves_pikachu_def)
  have base9: "get_pokemon_details serves_pikachu
        (pokemon_url (get_base_form_name ''pikachu-rock-star'')) 3 1 ?s9 =
      (Inr (json_of_pokemon pikachu), ?t9)"
    by (simp add: species_eval details_eval serves_pikachu_def rock_star_base)
  have species9: "get_species_info serves_pikachu 25 3 1 ?t9 =
      (Inr (species_json 25 False False), snd (get_species_info serves_pikachu 25 3 1 ?t9))"
    by (simp add: species_eval details_eval serves_pikachu_def rock_star_base)
  have c9: "fst (is_legendary_or_mythical serves_pikachu ''pikachu-rock-star'' 10080 fresh_state)
      = Some False"
    apply (rule false_if)
    apply (intro exI conjI impI)
       apply (rule own9)
      apply (rule species_json_flags)
     apply (rule base9)
    apply (rule disjI2)
    apply (intro exI conjI)
      apply (rule pikachu_json_id)
     apply (rule species9)
    apply (rule species_json_flags)
    done

  have hyp10: "species_cache fresh_state 150 = None
        \<and> (\<forall>i < 3. \<exists>r. species_reply always_500 (requests fresh_state + i)
                            (species_url (str_int 150)) = Response r
                        \<and> status_code r \<notin> {200, 404, 429})
        \<and> \<not> is_special_form ''mewtwo''"
    by (simp add: fresh_state_def always_500_def status_reply_def is_special_form_def)
  have c10: "fst (is_legendary_or_mythical always_500 ''mewtwo'' 150 fresh_state) = Some False"
    by (rule false_by_default) (rule hyp10)

  from c1 c2 c3 c4 c5 c6 c7 c8 c9 c10 show ?thesis
    by (intro conjI)
qed

text \<open>
  Claim C7 as stated fails. For a special form whose base form's detail record cannot be
  fetched (three server errors, so \<open>None\<close>), the function returns false although the base
  form's species record was never consulted: the only species request is the one for the
  entity itself. And when the species endpoint answers every request with a server error,
  the function returns false although no species record was received at all.
\<close>

theorem unfetched_base_form_is_not_legendary:
  "is_special_form ''pikachu-rock-star''
   \<and> is_legendary_or_mythical details_down ''pikachu-rock-star'' 10080 fresh_state =
       (Some False,
        fresh_state\<lparr>species_cache := [10080 \<mapsto> plain_species], requests := 4,
                    slept := [1, 1, 1]\<rparr>)
   \<and> \<not> is_special_form ''mewtwo''
   \<and> is_legendary_or_mythical always_500 ''mewtwo'' 150 fresh_state =
       (Some False,
        fresh_state\<lparr>species_cache := [150 \<mapsto> default_data], requests := 3,
                    slept := [1, 1, 1]\<rparr>)"
proof -
  have own: "get_species_info details_down 10080 3 1 fresh_state =
     (Inr plain_species, fresh_state\<lparr>species_cache := [10080 \<mapsto> plain_species], requests := 1\<rparr>)"
    by (simp add: species_eval details_down_def)
  have base: "get_pokemon_details details_down
      (pokemon_url (get_base_form_name ''pikachu-rock-star'')) 3 1
      (fresh_state\<lparr>species_cache := [10080 \<mapsto> plain_species], requests := 1\<rparr>) =
     (Inr JNull, fresh_state\<lparr>species_cache := [10080 \<mapsto> plain_species], requests := 4,
                    slept := [1, 1, 1]\<rparr>)"
    by (simp add: details_eval details_down_def)
  have flags: "legendary_or_mythical plain_species = Inr False"
    by (simp add: plain_species_def species_json_flags)
  from rock_star_is_special own base flags
  have one: "is_legendary_or_mythical details_down ''pikachu-rock-star'' 10080 fresh_state =
       (Some False,
        fresh_state\<lparr>species_cache := [10080 \<mapsto> plain_species], requests := 4,
                    slept := [1, 1, 1]\<rparr>)"
    by (simp add: is_legendary_or_mythical_def)
  have plain: "\<not> is_special_form ''mewtwo''"
    by (simp add: is_special_form_def)
  have none: "get_species_info always_500 150 3 1 fresh_state =
     (Inr default_data,
      fresh_state\<lparr>species_cache := [150 \<mapsto> default_data], requests := 3, slept := [1, 1, 1]\<rparr>)"
    by (simp add: species_eval always_500_def)
  from plain none default_data_flags
  have two: "is_legendary_or_mythical always_500 ''mewtwo'' 150 fresh_state =
       (Some False,
        fresh_state\<lparr>species_cache := [150 \<mapsto> default_data], requests := 3,
                    slept := [1, 1, 1]\<rparr>)"
    by (simp add: is_legendary_or_mythical_def)
  from rock_star_is_special one plain two show ?thesis by (intro conjI)
qed

section \<open>Properties of the analysis pipeline\<close>

lemma sort_key_le_ranked_before:
  "((- int (defensive_advantages a), - base_stats_total a)
      \<le> (- int (defensive_advantages b), - base_stats_total b)) = ranked_before a b"
  by (auto simp: ranked_before_def less_eq_prod_def)

lemma sorted_wrt_sort_values: "sorted_wrt ranked_before (sort_values rows)"
proof -
  let ?key = "\<lambda>row. (- int (defensive_advantages row), - base_stats_total row)"
  have "sorted (map ?key (sort_key ?key rows))"
    by (rule sorted_sort_key)
  then have "sorted_wrt (\<lambda>a b. ?key a \<le> ?key b) (sort_key ?key rows)"
    by (rule iffD1 [OF sorted_map])
  then have "sorted_wrt ranked_before (sort_key ?key rows)"
    by (rule sorted_wrt_mono_rel [rotated]) (simp only: sort_key_le_ranked_before)
  then show ?thesis
    by (simp only: sort_values_def)
qed

lemma sort_values_stable:
  "filter (\<lambda>row. defensive_advantages row = d \<and> base_stats_total row = t) (sort_values rows)
     = filter (\<lambda>row. defensive_advantages row = d \<and> base_stats_total row = t) rows"
proof -
  let ?key = "\<lambda>row. (- int (defensive_advantages row), - base_stats_total row)"
  have same: "(\<lambda>row. defensive_advantages row = d \<and> base_stats_total row = t)
      = (\<lambda>row. ?key row = (- int d, - t))"
    by auto
  show ?thesis
    unfolding same sort_values_def by (rule sort_key_stable)
qed

text \<open>
  Claim C6. The rows handed to the report are the accepted rows sorted by
  \<open>sort_values\<close>: every row stands before every row of lower score and, among rows of equal
  score, before every row of lower total; the report is a permutation of the accepted rows;
  and rows that tie on both keys keep the order in which they were accepted, so the same
  accepted sequence always yields the same report. When no row was accepted there is no
  report.
\<close>

theorem report_is_ranked:
  "(case fst (main net type_chart include_forms min_bst all_pokemon w) of
      None \<Rightarrow> results (snd (main net type_chart include_forms min_bst all_pokemon w)) = []
    | Some report \<Rightarrow>
        report = sort_values (results (snd (main net type_chart include_forms min_bst all_pokemon w)))
        \<and> sorted_wrt ranked_before report
        \<and> mset report = mset (results (snd (main net type_chart include_forms min_bst all_pokemon w)))
        \<and> filter (\<lambda>row. defensive_advantages row = d \<and> base_stats_total row = t) report
            = filter (\<lambda>row. defensive_advantages row = d \<and> base_stats_total row = t)
                (results (snd (main net type_chart include_forms min_bst all_pokemon w))))"
proof -
  obtain outs r where loop:
    "main_loop net type_chart min_bst (filter_forms include_forms all_pokemon) (initial_run w)
       = (outs, r)"
    by (cases "main_loop net type_chart min_bst (filter_forms include_forms all_pokemon) (initial_run w)")
  have m: "mset (sort_values (results r)) = mset (results r)"
    by (simp add: sort_values_def)
  show ?thesis
    using sorted_wrt_sort_values [of "results r"] sort_values_stable [of d t "results r"] m
    by (simp add: main_def loop)
qed

end
